theory Spec2Isabelle
  imports Main "HOL-Library.Word"
begin

unbundle bit_operations_syntax

section \<open>The terminal attribute state\<close>

text \<open>
  A shallow embedding of \<^verbatim>\<open>src/cerata/ubase/stty.c\<close>. The C types
  \<^verbatim>\<open>tcflag_t\<close> and \<^verbatim>\<open>speed_t\<close> are 32-bit unsigned integers and
  \<^verbatim>\<open>cc_t\<close> is a byte. The numeric values of the constants of
  \<^verbatim>\<open>termios.h\<close>, \<^verbatim>\<open>sys/ttydefaults.h\<close> and \<^verbatim>\<open>sys/ioctl.h\<close> are those of the
  generic Linux ABI (the platform of the distribution this tool is built for; the catalog
  of line disciplines and the baud rates above 38400 exist on Linux only). Those headers
  are not part of the repository; every value taken from them is a definition of its own
  below, collected in the fact list \<open>termbits\<close>.
\<close>

type_synonym tcflag_t = "32 word"
type_synonym speed_t = "32 word"
type_synonym cc_t = "8 word"

named_theorems termbits \<open>values of the constants of the system headers\<close>

subsection \<open>Control characters: indices into \<open>c_cc\<close> and default values\<close>

definition NCCS :: nat where [termbits]: "NCCS = 32"

definition VINTR :: nat where [termbits]: "VINTR = 0"
definition VQUIT :: nat where [termbits]: "VQUIT = 1"
definition VERASE :: nat where [termbits]: "VERASE = 2"
definition VKILL :: nat where [termbits]: "VKILL = 3"
definition VEOF :: nat where [termbits]: "VEOF = 4"
definition VTIME :: nat where [termbits]: "VTIME = 5"
definition VMIN :: nat where [termbits]: "VMIN = 6"
definition VSWTC :: nat where [termbits]: "VSWTC = 7"
definition VSTART :: nat where [termbits]: "VSTART = 8"
definition VSTOP :: nat where [termbits]: "VSTOP = 9"
definition VSUSP :: nat where [termbits]: "VSUSP = 10"
definition VEOL :: nat where [termbits]: "VEOL = 11"
definition VREPRINT :: nat where [termbits]: "VREPRINT = 12"
definition VDISCARD :: nat where [termbits]: "VDISCARD = 13"
definition VWERASE :: nat where [termbits]: "VWERASE = 14"
definition VLNEXT :: nat where [termbits]: "VLNEXT = 15"
definition VEOL2 :: nat where [termbits]: "VEOL2 = 16"

definition POSIX_VDISABLE :: cc_t where [termbits]: "POSIX_VDISABLE = 0"
definition CEOF :: cc_t where [termbits]: "CEOF = 4"
definition CEOL :: cc_t where [termbits]: "CEOL = 0"
definition CERASE :: cc_t where [termbits]: "CERASE = 127"
definition CINTR :: cc_t where [termbits]: "CINTR = 3"
definition CKILL :: cc_t where [termbits]: "CKILL = 21"
definition CQUIT :: cc_t where [termbits]: "CQUIT = 28"
definition CSUSP :: cc_t where [termbits]: "CSUSP = 26"
definition CSTART :: cc_t where [termbits]: "CSTART = 17"
definition CSTOP :: cc_t where [termbits]: "CSTOP = 19"
definition CLNEXT :: cc_t where [termbits]: "CLNEXT = 22"
definition CDISCARD :: cc_t where [termbits]: "CDISCARD = 15"
definition CWERASE :: cc_t where [termbits]: "CWERASE = 23"
definition CRPRNT :: cc_t where [termbits]: "CRPRNT = 18"

subsection \<open>Bits of the input flag group \<open>c_iflag\<close>\<close>

definition IGNBRK :: tcflag_t where [termbits]: "IGNBRK = 0x1"
definition BRKINT :: tcflag_t where [termbits]: "BRKINT = 0x2"
definition IGNPAR :: tcflag_t where [termbits]: "IGNPAR = 0x4"
definition PARMRK :: tcflag_t where [termbits]: "PARMRK = 0x8"
definition INPCK :: tcflag_t where [termbits]: "INPCK = 0x10"
definition ISTRIP :: tcflag_t where [termbits]: "ISTRIP = 0x20"
definition INLCR :: tcflag_t where [termbits]: "INLCR = 0x40"
definition IGNCR :: tcflag_t where [termbits]: "IGNCR = 0x80"
definition ICRNL :: tcflag_t where [termbits]: "ICRNL = 0x100"
definition IUCLC :: tcflag_t where [termbits]: "IUCLC = 0x200"
definition IXON :: tcflag_t where [termbits]: "IXON = 0x400"
definition IXANY :: tcflag_t where [termbits]: "IXANY = 0x800"
definition IXOFF :: tcflag_t where [termbits]: "IXOFF = 0x1000"
definition IMAXBEL :: tcflag_t where [termbits]: "IMAXBEL = 0x2000"
definition IUTF8 :: tcflag_t where [termbits]: "IUTF8 = 0x4000"

subsection \<open>Bits of the output flag group \<open>c_oflag\<close>\<close>

definition OPOST :: tcflag_t where [termbits]: "OPOST = 0x1"
definition OLCUC :: tcflag_t where [termbits]: "OLCUC = 0x2"
definition ONLCR :: tcflag_t where [termbits]: "ONLCR = 0x4"
definition OCRNL :: tcflag_t where [termbits]: "OCRNL = 0x8"
definition ONOCR :: tcflag_t where [termbits]: "ONOCR = 0x10"
definition ONLRET :: tcflag_t where [termbits]: "ONLRET = 0x20"
definition OFILL :: tcflag_t where [termbits]: "OFILL = 0x40"
definition OFDEL :: tcflag_t where [termbits]: "OFDEL = 0x80"
definition NLDLY :: tcflag_t where [termbits]: "NLDLY = 0x100"
definition NL0 :: tcflag_t where [termbits]: "NL0 = 0"
definition NL1 :: tcflag_t where [termbits]: "NL1 = 0x100"
definition CRDLY :: tcflag_t where [termbits]: "CRDLY = 0x600"
definition CR0 :: tcflag_t where [termbits]: "CR0 = 0"
definition CR1 :: tcflag_t where [termbits]: "CR1 = 0x200"
definition CR2 :: tcflag_t where [termbits]: "CR2 = 0x400"
definition CR3 :: tcflag_t where [termbits]: "CR3 = 0x600"
definition TABDLY :: tcflag_t where [termbits]: "TABDLY = 0x1800"
definition TAB0 :: tcflag_t where [termbits]: "TAB0 = 0"
definition TAB1 :: tcflag_t where [termbits]: "TAB1 = 0x800"
definition TAB2 :: tcflag_t where [termbits]: "TAB2 = 0x1000"
definition TAB3 :: tcflag_t where [termbits]: "TAB3 = 0x1800"
definition BSDLY :: tcflag_t where [termbits]: "BSDLY = 0x2000"
definition BS0 :: tcflag_t where [termbits]: "BS0 = 0"
definition BS1 :: tcflag_t where [termbits]: "BS1 = 0x2000"
definition VTDLY :: tcflag_t where [termbits]: "VTDLY = 0x4000"
definition VT0 :: tcflag_t where [termbits]: "VT0 = 0"
definition VT1 :: tcflag_t where [termbits]: "VT1 = 0x4000"
definition FFDLY :: tcflag_t where [termbits]: "FFDLY = 0x8000"
definition FF0 :: tcflag_t where [termbits]: "FF0 = 0"
definition FF1 :: tcflag_t where [termbits]: "FF1 = 0x8000"

subsection \<open>Bits of the control flag group \<open>c_cflag\<close>\<close>

definition CSIZE :: tcflag_t where [termbits]: "CSIZE = 0x30"
definition CS5 :: tcflag_t where [termbits]: "CS5 = 0"
definition CS6 :: tcflag_t where [termbits]: "CS6 = 0x10"
definition CS7 :: tcflag_t where [termbits]: "CS7 = 0x20"
definition CS8 :: tcflag_t where [termbits]: "CS8 = 0x30"
definition CSTOPB :: tcflag_t where [termbits]: "CSTOPB = 0x40"
definition CREAD :: tcflag_t where [termbits]: "CREAD = 0x80"
definition PARENB :: tcflag_t where [termbits]: "PARENB = 0x100"
definition PARODD :: tcflag_t where [termbits]: "PARODD = 0x200"
definition HUPCL :: tcflag_t where [termbits]: "HUPCL = 0x400"
definition CLOCAL :: tcflag_t where [termbits]: "CLOCAL = 0x800"
definition CMSPAR :: tcflag_t where [termbits]: "CMSPAR = 0x40000000"
definition CRTSCTS :: tcflag_t where [termbits]: "CRTSCTS = 0x80000000"

subsection \<open>Bits of the local flag group \<open>c_lflag\<close>\<close>

definition ISIG :: tcflag_t where [termbits]: "ISIG = 0x1"
definition ICANON :: tcflag_t where [termbits]: "ICANON = 0x2"
definition XCASE :: tcflag_t where [termbits]: "XCASE = 0x4"
definition ECHO :: tcflag_t where [termbits]: "ECHO = 0x8"
definition ECHOE :: tcflag_t where [termbits]: "ECHOE = 0x10"
definition ECHOK :: tcflag_t where [termbits]: "ECHOK = 0x20"
definition ECHONL :: tcflag_t where [termbits]: "ECHONL = 0x40"
definition NOFLSH :: tcflag_t where [termbits]: "NOFLSH = 0x80"
definition TOSTOP :: tcflag_t where [termbits]: "TOSTOP = 0x100"
definition ECHOCTL :: tcflag_t where [termbits]: "ECHOCTL = 0x200"
definition ECHOPRT :: tcflag_t where [termbits]: "ECHOPRT = 0x400"
definition ECHOKE :: tcflag_t where [termbits]: "ECHOKE = 0x800"
definition FLUSHO :: tcflag_t where [termbits]: "FLUSHO = 0x1000"
definition IEXTEN :: tcflag_t where [termbits]: "IEXTEN = 0x8000"
definition EXTPROC :: tcflag_t where [termbits]: "EXTPROC = 0x10000"

subsection \<open>Baud rates and line disciplines\<close>

definition B0 :: speed_t where [termbits]: "B0 = 0"
definition B50 :: speed_t where [termbits]: "B50 = 1"
definition B75 :: speed_t where [termbits]: "B75 = 2"
definition B110 :: speed_t where [termbits]: "B110 = 3"
definition B134 :: speed_t where [termbits]: "B134 = 4"
definition B150 :: speed_t where [termbits]: "B150 = 5"
definition B200 :: speed_t where [termbits]: "B200 = 6"
definition B300 :: speed_t where [termbits]: "B300 = 7"
definition B600 :: speed_t where [termbits]: "B600 = 8"
definition B1200 :: speed_t where [termbits]: "B1200 = 9"
definition B1800 :: speed_t where [termbits]: "B1800 = 10"
definition B2400 :: speed_t where [termbits]: "B2400 = 11"
definition B4800 :: speed_t where [termbits]: "B4800 = 12"
definition B9600 :: speed_t where [termbits]: "B9600 = 13"
definition B19200 :: speed_t where [termbits]: "B19200 = 14"
definition B38400 :: speed_t where [termbits]: "B38400 = 15"
definition B57600 :: speed_t where [termbits]: "B57600 = 0x1001"
definition B115200 :: speed_t where [termbits]: "B115200 = 0x1002"
definition B230400 :: speed_t where [termbits]: "B230400 = 0x1003"
definition B460800 :: speed_t where [termbits]: "B460800 = 0x1004"
definition B500000 :: speed_t where [termbits]: "B500000 = 0x1005"
definition B576000 :: speed_t where [termbits]: "B576000 = 0x1006"
definition B921600 :: speed_t where [termbits]: "B921600 = 0x1007"
definition B1000000 :: speed_t where [termbits]: "B1000000 = 0x1008"
definition B1152000 :: speed_t where [termbits]: "B1152000 = 0x1009"
definition B1500000 :: speed_t where [termbits]: "B1500000 = 0x100a"
definition B2000000 :: speed_t where [termbits]: "B2000000 = 0x100b"
definition B2500000 :: speed_t where [termbits]: "B2500000 = 0x100c"
definition B3000000 :: speed_t where [termbits]: "B3000000 = 0x100d"
definition B3500000 :: speed_t where [termbits]: "B3500000 = 0x100e"
definition B4000000 :: speed_t where [termbits]: "B4000000 = 0x100f"

definition N_TTY :: "8 word" where [termbits]: "N_TTY = 0"
definition N_SLIP :: "8 word" where [termbits]: "N_SLIP = 1"
definition N_MOUSE :: "8 word" where [termbits]: "N_MOUSE = 2"
definition N_PPP :: "8 word" where [termbits]: "N_PPP = 3"
definition N_STRIP :: "8 word" where [termbits]: "N_STRIP = 4"
definition N_AX25 :: "8 word" where [termbits]: "N_AX25 = 5"
definition N_X25 :: "8 word" where [termbits]: "N_X25 = 6"
definition N_6PACK :: "8 word" where [termbits]: "N_6PACK = 7"
definition N_MASC :: "8 word" where [termbits]: "N_MASC = 8"
definition N_R3964 :: "8 word" where [termbits]: "N_R3964 = 9"
definition N_PROFIBUS_FDL :: "8 word" where [termbits]: "N_PROFIBUS_FDL = 10"
definition N_IRDA :: "8 word" where [termbits]: "N_IRDA = 11"
definition N_SMSBLOCK :: "8 word" where [termbits]: "N_SMSBLOCK = 12"
definition N_HDLC :: "8 word" where [termbits]: "N_HDLC = 13"
definition N_SYNC_PPP :: "8 word" where [termbits]: "N_SYNC_PPP = 14"
definition N_HCI :: "8 word" where [termbits]: "N_HCI = 15"

subsection \<open>\<^verbatim>\<open>struct termios\<close> and \<^verbatim>\<open>struct winsize\<close>\<close>

text \<open>
  The fields of \<^verbatim>\<open>struct termios\<close> in declaration order. The array \<^verbatim>\<open>c_cc[NCCS]\<close>
  is a function from the index; the program only ever uses the constant indices above,
  all below \<open>NCCS\<close>. \<open>c_pad\<close> stands for the three bytes the compiler leaves between
  \<^verbatim>\<open>c_cc\<close> and the speed fields: no operand touches them, but the byte-wise copies and
  comparisons of \<^verbatim>\<open>main\<close> and the hexadecimal state literal do.
\<close>

record termios =
  c_iflag :: tcflag_t
  c_oflag :: tcflag_t
  c_cflag :: tcflag_t
  c_lflag :: tcflag_t
  c_line :: cc_t
  c_cc :: "nat \<Rightarrow> cc_t"
  c_pad :: "8 word \<times> 8 word \<times> 8 word"
  c_ispeed :: speed_t
  c_ospeed :: speed_t

record winsize =
  ws_row :: "16 word"
  ws_col :: "16 word"
  ws_xpixel :: "16 word"
  ws_ypixel :: "16 word"

section \<open>Side-effect routines of the combination operands\<close>

text \<open>The C parameter \<^verbatim>\<open>int unset\<close> is only ever tested for zero: a \<open>bool\<close>.\<close>

definition raw :: "bool \<Rightarrow> termios \<Rightarrow> termios" where
  "raw unset m =
     (if \<not> unset
      then m\<lparr>c_iflag := 0,
             c_lflag := c_lflag m AND NOT XCASE,
             c_cc := (c_cc m)(VMIN := 1, VTIME := 0)\<rparr>
      else m\<lparr>c_iflag := c_iflag m OR (BRKINT OR IGNPAR OR ISTRIP OR ICRNL OR IXON)\<rparr>)"

definition evenp :: "bool \<Rightarrow> termios \<Rightarrow> termios" where
  "evenp unset m =
     m\<lparr>c_oflag := ((c_oflag m AND NOT CSIZE) AND NOT (if unset then PARENB else PARODD))
                    OR (if unset then CS8 else (CS7 OR PARENB))\<rparr>"

definition dec :: "bool \<Rightarrow> termios \<Rightarrow> termios" where
  "dec unset m = m\<lparr>c_cc := (c_cc m)(VINTR := CINTR, VKILL := CKILL, VERASE := CERASE)\<rparr>"

definition ek :: "bool \<Rightarrow> termios \<Rightarrow> termios" where
  "ek unset m = m\<lparr>c_cc := (c_cc m)(VKILL := CKILL, VERASE := CERASE)\<rparr>"

definition nl :: "bool \<Rightarrow> termios \<Rightarrow> termios" where
  "nl unset m =
     (if unset
      then m\<lparr>c_iflag := c_iflag m AND NOT (INLCR OR IGNCR),
             c_oflag := c_oflag m AND NOT (OCRNL OR ONLRET)\<rparr>
      else m)"

definition oddp :: "bool \<Rightarrow> termios \<Rightarrow> termios" where
  "oddp unset m =
     m\<lparr>c_oflag := ((c_oflag m AND NOT CSIZE) AND NOT (if unset then PARENB else 0))
                    OR (if unset then CS8 else (CS7 OR PARODD OR PARENB))\<rparr>"

definition cooked :: "bool \<Rightarrow> termios \<Rightarrow> termios" where
  "cooked unset m = raw (\<not> unset) m"

definition pass8 :: "bool \<Rightarrow> termios \<Rightarrow> termios" where
  "pass8 unset m = m\<lparr>c_cflag := (c_cflag m AND NOT CSIZE) OR (if unset then CS7 else CS8)\<rparr>"

definition tabs :: "bool \<Rightarrow> termios \<Rightarrow> termios" where
  "tabs unset m = m\<lparr>c_oflag := (c_oflag m AND NOT TABDLY) OR (if unset then TAB3 else TAB0)\<rparr>"

section \<open>Process state, environment and failures\<close>

text \<open>
  The variables the program works on: the working copy \<^verbatim>\<open>mode\<close> of \<^verbatim>\<open>main\<close>, the
  three file-scope request variables, the terminal on standard input (\<open>tty\<close>: the
  attributes \<^verbatim>\<open>tcgetattr\<close> reports for it; \<open>tty_winsize\<close>: its window size), the text
  written to standard output so far, and the two static variables of \<^verbatim>\<open>printtoken\<close>.
\<close>

record prog =
  mode :: termios
  output_size_requested :: bool
  output_speed_requested :: bool
  drain_requested :: bool
  tty :: termios
  tty_winsize :: winsize
  out :: string
  pt_width :: nat
  pt_pos :: nat

text \<open>
  What the C library and the terminal driver do is outside the repository, and the
  number parser \<^verbatim>\<open>estrtonum\<close> of the utility library is not under \<^verbatim>\<open>src/\<close>: they
  are parameters of the model. \<open>estrtonum\<close> gives the number or the diagnostic it
  ends the run with; \<open>strtoll\<close> (base 0) gives the value, the number of
  characters it consumed and whether it set \<^verbatim>\<open>errno\<close> to \<^verbatim>\<open>ERANGE\<close>; the speed setters
  give \<open>None\<close> when they return non-zero; \<open>tcsetattr\<close> takes the drain request, the
  current attributes of the terminal and the requested ones and gives the attributes the
  terminal has afterwards, or \<open>None\<close> when the call fails; the three flags say whether
  the calls on standard input succeed, and \<open>stdout_cols\<close> is the column count of the
  terminal on standard output, if it is one.
\<close>

record env =
  estrtonum :: "string \<Rightarrow> int \<Rightarrow> int \<Rightarrow> string + int"
  strtoll :: "string \<Rightarrow> int \<times> nat \<times> bool"
  cfsetispeed :: "speed_t \<Rightarrow> termios \<Rightarrow> termios option"
  cfsetospeed :: "speed_t \<Rightarrow> termios \<Rightarrow> termios option"
  cfgetispeed :: "termios \<Rightarrow> speed_t"
  cfgetospeed :: "termios \<Rightarrow> speed_t"
  tcsetattr :: "bool \<Rightarrow> termios \<Rightarrow> termios \<Rightarrow> termios option"
  tcgetattr_ok :: bool
  tiocgwinsz_ok :: bool
  tiocswinsz_ok :: bool
  stdout_cols :: "16 word option"

text \<open>
  Modelled from the spec: \<^verbatim>\<open>eprintf\<close>, declared in \<^verbatim>\<open>util.h\<close> and defined in the
  utility library, neither under \<^verbatim>\<open>src/\<close>. By section 7 of the specification every
  error is terminal: one diagnostic line goes to standard error and the run ends with a
  non-zero exit status, nothing after it is executed. \<open>Exit msg\<close> is that outcome,
  \<open>msg\<close> being the text the program passes with the format expanded (the description
  of \<^verbatim>\<open>errno\<close> that follows a trailing colon is left out). The source relies on it:
  \<^verbatim>\<open>main\<close> ends in \<^verbatim>\<open>eprintf\<close> without a \<^verbatim>\<open>return\<close>, and
  \<^verbatim>\<open>parseoperand_key\<close> dereferences \<^verbatim>\<open>arg1\<close> right after reporting that it is null.
  \<open>Abort\<close> is the outcome of \<^verbatim>\<open>abort()\<close>, \<open>Undefined\<close> a read outside an object.
  A failed run is \<open>Inl (f, s)\<close>, \<open>s\<close> being the state at the moment the run ended.
\<close>

datatype failure = Abort | Undefined | Exit string

type_synonym 'a result = "failure \<times> prog + 'a"

definition eprintf :: "string \<Rightarrow> prog \<Rightarrow> 'a result" where
  "eprintf msg s = Inl (Exit msg, s)"

definition andthen :: "'a result \<Rightarrow> ('a \<Rightarrow> 'b result) \<Rightarrow> 'b result" where
  "andthen r f = (case r of Inl e \<Rightarrow> Inl e | Inr x \<Rightarrow> f x)"

text \<open>
  The exit status of a run and the diagnostic on standard error: \<^verbatim>\<open>eprintf\<close> ends
  the run with status 1; a run that is ended by a signal has a non-zero status too
  (134 is what a shell reports for \<^verbatim>\<open>abort()\<close>).
\<close>

definition exit_status :: "'a result \<Rightarrow> nat" where
  "exit_status r = (case r of Inr _ \<Rightarrow> 0 | Inl (Exit _, _) \<Rightarrow> 1 | Inl _ \<Rightarrow> 134)"

definition stderr_of :: "'a result \<Rightarrow> string" where
  "stderr_of r = (case r of Inl (Exit msg, _) \<Rightarrow> msg | _ \<Rightarrow> [])"

text \<open>
  What a finished run of \<^verbatim>\<open>main\<close> leaves behind: the text on standard output,
  the attributes of the terminal and its window size.
\<close>

definition stdout_of :: "prog result \<Rightarrow> string" where
  "stdout_of r = (case r of Inl (_, s) \<Rightarrow> out s | Inr s \<Rightarrow> out s)"

definition tty_of :: "prog result \<Rightarrow> termios" where
  "tty_of r = (case r of Inl (_, s) \<Rightarrow> tty s | Inr s \<Rightarrow> tty s)"

definition winsize_of :: "prog result \<Rightarrow> winsize" where
  "winsize_of r = (case r of Inl (_, s) \<Rightarrow> tty_winsize s | Inr s \<Rightarrow> tty_winsize s)"

section \<open>Lookup tables\<close>

datatype type = CTRL | IN | OUT | LOCAL | COMB | SPEC

definition BOOL :: "32 word" where [termbits]: "BOOL = 1"
definition DUP :: "32 word" where [termbits]: "DUP = 2"
definition SANE :: "32 word" where [termbits]: "SANE = 4"
definition INSANE :: "32 word" where [termbits]: "INSANE = 8"
definition CBREAK :: "32 word" where [termbits]: "CBREAK = 16"
definition DECCTLQ :: "32 word" where [termbits]: "DECCTLQ = 32"
definition LCASE :: "32 word" where [termbits]: "LCASE = 64"
definition PASS8 :: "32 word" where [termbits]: "PASS8 = 128"
definition LITOUT :: "32 word" where [termbits]: "LITOUT = 256"
definition CRT :: "32 word" where [termbits]: "CRT = 1024"
definition DEC :: "32 word" where [termbits]: "DEC = 2048"
definition NL :: "32 word" where [termbits]: "NL = 4096"
definition COOKED :: "32 word" where [termbits]: "COOKED = 8192"
definition DEF :: "32 word" where [termbits]: "DEF = 16384"

text \<open>
  A function pointer of a table is the name of the routine, and the null pointer of
  \<^verbatim>\<open>struct mode\<close> is \<open>None\<close>; \<open>callfun\<close> and \<open>callint\<close> below are the indirect calls.
\<close>

datatype modefun =
  F_raw | F_evenp | F_dec | F_ek | F_nl | F_oddp | F_drain | F_cooked | F_pass8
  | F_size | F_speed | F_tabs | F_sane

datatype intfun = I_cols | I_min | I_rows | I_stime | I_ispeed | I_ospeed

datatype mode_entry = Mode
  (m_op: string) (m_type: type) (m_set: tcflag_t) (m_clear: tcflag_t)
  (m_fun: "modefun option") (m_flags: "32 word")

datatype key_entry = Key (k_op: string) (k_index: nat) (k_sanevalue: cc_t)

datatype int_entry = Intvalued (i_op: string) (i_fun: intfun)

datatype speed_entry = Speed (sp_str: string) (sp_speed: speed_t)

datatype line_entry = Line (ln_str: string) (ln_value: "8 word")

definition modes :: "mode_entry list" where
  "modes =
    [
     Mode ''clocal'' CTRL CLOCAL 0 None BOOL,
     Mode ''cmspar'' CTRL CMSPAR 0 None BOOL,
     Mode ''cread'' CTRL CREAD 0 None (BOOL OR SANE),
     Mode ''crtscts'' CTRL CRTSCTS 0 None BOOL,
     Mode ''cs5'' CTRL CS5 CSIZE None 0,
     Mode ''cs6'' CTRL CS6 CSIZE None 0,
     Mode ''cs7'' CTRL CS7 CSIZE None 0,
     Mode ''cs8'' CTRL CS8 CSIZE None DEF,
     Mode ''cstopb'' CTRL CSTOPB 0 None BOOL,
     Mode ''hup'' CTRL HUPCL 0 None (BOOL OR DUP),
     Mode ''hupcl'' CTRL HUPCL 0 None (BOOL OR DEF),
     Mode ''parenb'' CTRL PARENB 0 None (BOOL OR PASS8 OR LITOUT),
     Mode ''parodd'' CTRL PARODD 0 None BOOL,
     Mode ''brkint'' IN BRKINT 0 None (BOOL OR SANE),
     Mode ''icrnl'' IN ICRNL 0 None (BOOL OR SANE OR NL),
     Mode ''ignbrk'' IN IGNBRK 0 None (BOOL OR INSANE),
     Mode ''igncr'' IN IGNCR 0 None (BOOL OR INSANE),
     Mode ''ignpar'' IN IGNPAR 0 None BOOL,
     Mode ''imaxbel'' IN IMAXBEL 0 None (BOOL OR SANE),
     Mode ''inlcr'' IN INLCR 0 None (BOOL OR INSANE),
     Mode ''inpck'' IN INPCK 0 None BOOL,
     Mode ''istrip'' IN ISTRIP 0 None (BOOL OR PASS8 OR LITOUT),
     Mode ''iuclc'' IN IUCLC 0 None (BOOL OR INSANE OR LCASE),
     Mode ''iutf8'' IN IUTF8 0 None (BOOL OR SANE),
     Mode ''ixany'' IN IXANY 0 None (BOOL OR INSANE OR DECCTLQ),
     Mode ''ixoff'' IN IXOFF 0 None (BOOL OR INSANE),
     Mode ''ixon'' IN IXON 0 None (BOOL OR DEF),
     Mode ''parmrk'' IN PARMRK 0 None BOOL,
     Mode ''tandem'' IN IXOFF 0 None (BOOL OR DUP),
     Mode ''bs0'' OUT BS0 BSDLY None SANE,
     Mode ''bs1'' OUT BS1 BSDLY None INSANE,
     Mode ''cr0'' OUT CR0 CRDLY None SANE,
     Mode ''cr1'' OUT CR1 CRDLY None INSANE,
     Mode ''cr2'' OUT CR2 CRDLY None INSANE,
     Mode ''cr3'' OUT CR3 CRDLY None INSANE,
     Mode ''ff0'' OUT FF0 FFDLY None SANE,
     Mode ''ff1'' OUT FF1 FFDLY None INSANE,
     Mode ''nl0'' OUT NL0 NLDLY None SANE,
     Mode ''nl1'' OUT NL1 NLDLY None INSANE,
     Mode ''ocrnl'' OUT OCRNL 0 None (BOOL OR INSANE),
     Mode ''ofdel'' OUT OFDEL 0 None (BOOL OR INSANE),
     Mode ''ofill'' OUT OFILL 0 None (BOOL OR INSANE),
     Mode ''olcuc'' OUT OLCUC 0 None (BOOL OR INSANE OR LCASE),
     Mode ''onlcr'' OUT ONLCR 0 None (BOOL OR SANE OR NL),
     Mode ''onlret'' OUT ONLRET 0 None (BOOL OR INSANE),
     Mode ''onocr'' OUT ONOCR 0 None (BOOL OR INSANE),
     Mode ''opost'' OUT OPOST 0 None (BOOL OR SANE OR LITOUT OR COOKED),
     Mode ''tab0'' OUT TAB0 TABDLY None SANE,
     Mode ''tab1'' OUT TAB1 TABDLY None INSANE,
     Mode ''tab2'' OUT TAB2 TABDLY None INSANE,
     Mode ''tab3'' OUT TAB3 TABDLY None INSANE,
     Mode ''vt0'' OUT VT0 VTDLY None SANE,
     Mode ''vt1'' OUT VT1 VTDLY None INSANE,
     Mode ''crterase'' LOCAL ECHOE 0 None (BOOL OR DUP),
     Mode ''crtkill'' LOCAL ECHOKE 0 None (BOOL OR DUP),
     Mode ''ctlecho'' LOCAL ECHOCTL 0 None (BOOL OR DUP),
     Mode ''echo'' LOCAL ECHO 0 None (BOOL OR SANE),
     Mode ''echoctl'' LOCAL ECHOCTL 0 None (BOOL OR SANE OR CRT OR DEC),
     Mode ''echoe'' LOCAL ECHOE 0 None (BOOL OR SANE OR CRT OR DEC),
     Mode ''echok'' LOCAL ECHOK 0 None (BOOL OR SANE),
     Mode ''echoke'' LOCAL ECHOKE 0 None (BOOL OR SANE OR CRT OR DEC),
     Mode ''echonl'' LOCAL ECHONL 0 None (BOOL OR INSANE),
     Mode ''echoprt'' LOCAL ECHOPRT 0 None (BOOL OR INSANE),
     Mode ''extproc'' LOCAL EXTPROC 0 None (BOOL OR INSANE),
     Mode ''flusho'' LOCAL FLUSHO 0 None (BOOL OR INSANE),
     Mode ''icanon'' LOCAL ICANON 0 None (BOOL OR SANE OR CBREAK OR COOKED),
     Mode ''iexten'' LOCAL IEXTEN 0 None (BOOL OR SANE),
     Mode ''isig'' LOCAL ISIG 0 None (BOOL OR SANE OR COOKED),
     Mode ''noflsh'' LOCAL NOFLSH 0 None (BOOL OR INSANE),
     Mode ''prterase'' LOCAL ECHOPRT 0 None (BOOL OR DUP),
     Mode ''tostop'' LOCAL TOSTOP 0 None (BOOL OR INSANE),
     Mode ''xcase'' LOCAL XCASE 0 None (BOOL OR INSANE OR LCASE),
     Mode ''cbreak'' COMB 0 CBREAK None (BOOL OR DUP),
     Mode ''cooked'' COMB COOKED 0 (Some F_cooked) (BOOL OR DUP),
     Mode ''crt'' COMB CRT 0 None DUP,
     Mode ''dec'' COMB DEC DECCTLQ (Some F_dec) DUP,
     Mode ''decctlq'' COMB 0 DECCTLQ None (BOOL OR DUP),
     Mode ''ek'' COMB 0 0 (Some F_ek) DUP,
     Mode ''evenp'' COMB 0 0 (Some F_evenp) (BOOL OR DUP),
     Mode ''LCASE'' COMB LCASE 0 None (BOOL OR DUP),
     Mode ''lcase'' COMB LCASE 0 None (BOOL OR DUP),
     Mode ''litout'' COMB 0 LITOUT (Some F_pass8) (BOOL OR DUP),
     Mode ''nl'' COMB 0 NL (Some F_nl) (BOOL OR DUP),
     Mode ''oddp'' COMB 0 0 (Some F_oddp) (BOOL OR DUP),
     Mode ''parity'' COMB 0 0 (Some F_evenp) (BOOL OR DUP),
     Mode ''pass8'' COMB 0 PASS8 (Some F_pass8) (BOOL OR DUP),
     Mode ''raw'' COMB 0 COOKED (Some F_raw) (BOOL OR DUP),
     Mode ''sane'' COMB SANE INSANE (Some F_sane) DUP,
     Mode ''tabs'' COMB 0 0 (Some F_tabs) (BOOL OR DUP),
     Mode ''size'' SPEC 0 0 (Some F_size) DUP,
     Mode ''speed'' SPEC 0 0 (Some F_speed) DUP,
     Mode ''drain'' SPEC 0 0 (Some F_drain) (BOOL OR DUP)
    ]"

definition keys :: "key_entry list" where
  "keys =
    [Key ''discard'' VDISCARD CDISCARD,
     Key ''eof'' VEOF CEOF,
     Key ''eol'' VEOL CEOL,
     Key ''eol2'' VEOL2 POSIX_VDISABLE,
     Key ''erase'' VERASE CERASE,
     Key ''intr'' VINTR CINTR,
     Key ''kill'' VKILL CKILL,
     Key ''lnext'' VLNEXT CLNEXT,
     Key ''quit'' VQUIT CQUIT,
     Key ''rprnt'' VREPRINT CRPRNT,
     Key ''start'' VSTART CSTART,
     Key ''stop'' VSTOP CSTOP,
     Key ''susp'' VSUSP CSUSP,
     Key ''swtch'' VSWTC POSIX_VDISABLE,
     Key ''werase'' VWERASE CWERASE]"

definition speeds :: "speed_entry list" where
  "speeds =
    [Speed ''0'' B0, Speed ''50'' B50, Speed ''75'' B75, Speed ''110'' B110,
     Speed ''134'' B134, Speed ''150'' B150, Speed ''200'' B200, Speed ''300'' B300,
     Speed ''600'' B600, Speed ''1200'' B1200, Speed ''1800'' B1800, Speed ''2400'' B2400,
     Speed ''4800'' B4800, Speed ''9600'' B9600, Speed ''19200'' B19200,
     Speed ''38400'' B38400, Speed ''57600'' B57600, Speed ''115200'' B115200,
     Speed ''230400'' B230400, Speed ''460800'' B460800, Speed ''500000'' B500000,
     Speed ''576000'' B576000, Speed ''921600'' B921600, Speed ''1000000'' B1000000,
     Speed ''1152000'' B1152000, Speed ''1500000'' B1500000, Speed ''2000000'' B2000000,
     Speed ''2500000'' B2500000, Speed ''3000000'' B3000000, Speed ''3500000'' B3500000,
     Speed ''4000000'' B4000000,
     Speed ''134.5'' B134,
     Speed ''exta'' B19200,
     Speed ''extb'' B38400]"

definition lines :: "line_entry list" where
  "lines =
    [Line ''tty'' N_TTY, Line ''slip'' N_SLIP, Line ''mouse'' N_MOUSE, Line ''ppp'' N_PPP,
     Line ''strip'' N_STRIP, Line ''ax25'' N_AX25, Line ''x25'' N_X25,
     Line ''6pack'' N_6PACK, Line ''masc'' N_MASC, Line ''r3964'' N_R3964,
     Line ''profibus'' N_PROFIBUS_FDL, Line ''irda'' N_IRDA, Line ''smsblock'' N_SMSBLOCK,
     Line ''hdlc'' N_HDLC, Line ''syncppp'' N_SYNC_PPP, Line ''hci'' N_HCI]"

definition ints :: "int_entry list" where
  "ints =
    [Intvalued ''cols'' I_cols,
     Intvalued ''columns'' I_cols,
     Intvalued ''min'' I_min,
     Intvalued ''rows'' I_rows,
     Intvalued ''time'' I_stime,
     Intvalued ''ispeed'' I_ispeed,
     Intvalued ''ospeed'' I_ospeed]"

definition CC_MAX :: int where [termbits]: "CC_MAX = 255"
definition USHRT_MAX :: int where [termbits]: "USHRT_MAX = 65535"
definition LLONG_MAX :: int where [termbits]: "LLONG_MAX = 2 ^ 63 - 1"
definition LLONG_MIN :: int where [termbits]: "LLONG_MIN = - (2 ^ 63)"
definition SIZE_MAX :: nat where [termbits]: "SIZE_MAX = 2 ^ 64 - 1"
definition BUFSIZ :: nat where [termbits]: "BUFSIZ = 1024"

text \<open>\<^verbatim>\<open>sane\<close>: the loop over \<^verbatim>\<open>keys\<close> is a fold in table order.\<close>

definition sane :: "bool \<Rightarrow> termios \<Rightarrow> termios" where
  "sane unset m =
     (let m1 = fold (\<lambda>op m. m\<lparr>c_cc := (c_cc m)(k_index op := k_sanevalue op)\<rparr>) keys m
      in m1\<lparr>c_cc := (c_cc m1)(VMIN := 1, VTIME := 0)\<rparr>)"

definition drain :: "bool \<Rightarrow> prog \<Rightarrow> prog" where
  "drain unset s = s\<lparr>drain_requested := \<not> unset\<rparr>"

definition size' :: "bool \<Rightarrow> prog \<Rightarrow> prog" where
  "size' unset s = s\<lparr>output_size_requested := True\<rparr>"

definition speed :: "bool \<Rightarrow> prog \<Rightarrow> prog" where
  "speed unset s = s\<lparr>output_speed_requested := True\<rparr>"

fun callfun :: "modefun \<Rightarrow> bool \<Rightarrow> prog \<Rightarrow> prog" where
  "callfun F_raw unset s = s\<lparr>mode := raw unset (mode s)\<rparr>"
| "callfun F_evenp unset s = s\<lparr>mode := evenp unset (mode s)\<rparr>"
| "callfun F_dec unset s = s\<lparr>mode := dec unset (mode s)\<rparr>"
| "callfun F_ek unset s = s\<lparr>mode := ek unset (mode s)\<rparr>"
| "callfun F_nl unset s = s\<lparr>mode := nl unset (mode s)\<rparr>"
| "callfun F_oddp unset s = s\<lparr>mode := oddp unset (mode s)\<rparr>"
| "callfun F_drain unset s = drain unset s"
| "callfun F_cooked unset s = s\<lparr>mode := cooked unset (mode s)\<rparr>"
| "callfun F_pass8 unset s = s\<lparr>mode := pass8 unset (mode s)\<rparr>"
| "callfun F_size unset s = size' unset s"
| "callfun F_speed unset s = speed unset s"
| "callfun F_tabs unset s = s\<lparr>mode := tabs unset (mode s)\<rparr>"
| "callfun F_sane unset s = s\<lparr>mode := sane unset (mode s)\<rparr>"

section \<open>Mode operands\<close>

text \<open>
  \<^verbatim>\<open>setoperand_mode\<close>: the \<^verbatim>\<open>switch\<close> selects the flag group (none for \<open>SPEC\<close>,
  \<^verbatim>\<open>abort()\<close> for \<open>COMB\<close>); the three statements under \<^verbatim>\<open>if (bitsp)\<close> are
  \<open>mutate\<close>; then the routine of the entry, if any, is called.
\<close>

definition setoperand_mode :: "bool \<Rightarrow> mode_entry \<Rightarrow> prog \<Rightarrow> prog result" where
  "setoperand_mode unset op s =
     (let mutate = (\<lambda>bits. let bits1 = bits AND NOT (m_clear op)
                            in if \<not> unset then bits1 OR m_set op
                               else bits1 AND NOT (m_set op));
          m = mode s;
          after = (\<lambda>m'. Inr (case m_fun op of
                               None \<Rightarrow> s\<lparr>mode := m'\<rparr>
                             | Some f \<Rightarrow> callfun f unset (s\<lparr>mode := m'\<rparr>)))
      in case m_type op of
           CTRL \<Rightarrow> after (m\<lparr>c_cflag := mutate (c_cflag m)\<rparr>)
         | IN \<Rightarrow> after (m\<lparr>c_iflag := mutate (c_iflag m)\<rparr>)
         | OUT \<Rightarrow> after (m\<lparr>c_oflag := mutate (c_oflag m)\<rparr>)
         | LOCAL \<Rightarrow> after (m\<lparr>c_lflag := mutate (c_lflag m)\<rparr>)
         | SPEC \<Rightarrow> after m
         | COMB \<Rightarrow> Inl (Abort, s))"

text \<open>
  The propagation loop of \<^verbatim>\<open>parseoperand_mode\<close> over the catalog, for a combination
  whose tag masks are \<open>flags_set\<close> and \<open>flags_unset\<close>.
\<close>

fun propagate :: "bool \<Rightarrow> 32 word \<Rightarrow> 32 word \<Rightarrow> mode_entry list \<Rightarrow> prog \<Rightarrow> prog result"
  where
  "propagate unset flags_set flags_unset [] s = Inr s"
| "propagate unset flags_set flags_unset (op # ops) s =
     (if m_type op = COMB then propagate unset flags_set flags_unset ops s
      else
        andthen (if flags_unset \<noteq> 0 \<and> m_flags op AND flags_unset \<noteq> 0
                 then setoperand_mode (\<not> unset) op s else Inr s)
          (\<lambda>s1. andthen (if flags_set \<noteq> 0 \<and> m_flags op AND flags_set \<noteq> 0
                          then setoperand_mode unset op s1 else Inr s1)
                  (\<lambda>s2. propagate unset flags_set flags_unset ops s2)))"

text \<open>
  \<^verbatim>\<open>parseoperand_mode\<close>. The result \<open>Inr None\<close> is the return value \<open>-1\<close> (no
  mode operand of that name, or an unset request for an entry without \<open>BOOL\<close>; the state
  is untouched), \<open>Inr (Some s)\<close> is the return value \<open>0\<close> with the new state.
\<close>

definition parseoperand_mode :: "string \<Rightarrow> prog \<Rightarrow> prog option result" where
  "parseoperand_mode arg0 s =
     (let unset = (arg0 \<noteq> [] \<and> hd arg0 = CHR ''-'');
          arg = (if unset then tl arg0 else arg0)
      in case find (\<lambda>op. m_op op = arg) modes of
           None \<Rightarrow> Inr None
         | Some op \<Rightarrow>
            if unset \<and> m_flags op AND BOOL = 0 then Inr None
            else if m_type op \<noteq> COMB
            then andthen (setoperand_mode unset op s) (\<lambda>s1. Inr (Some s1))
            else
              let flags_set = m_set op; flags_unset = m_clear op
              in andthen (if flags_unset \<noteq> 0 \<or> flags_set \<noteq> 0
                          then propagate unset flags_set flags_unset modes s else Inr s)
                   (\<lambda>s1. Inr (Some (case m_fun op of
                                      None \<Rightarrow> s1
                                    | Some f \<Rightarrow> callfun f unset s1))))"

section \<open>Key, integer-valued, line and speed operands\<close>

text \<open>
  \<^verbatim>\<open>estrtonum_anyradix\<close>: \<open>n\<close> is the offset of \<^verbatim>\<open>ep\<close> in \<^verbatim>\<open>numstr\<close>, so
  \<^verbatim>\<open>numstr == ep\<close> is \<open>n = 0\<close> and \<^verbatim>\<open>*ep != '\0'\<close> is \<open>n < length numstr\<close>.
\<close>

definition estrtonum_anyradix :: "env \<Rightarrow> string \<Rightarrow> int \<Rightarrow> int \<Rightarrow> string + int" where
  "estrtonum_anyradix env numstr minval maxval =
     (case strtoll env numstr of (ll, n, erange) \<Rightarrow>
        if n = 0 \<or> n < length numstr
        then Inl (''strtoll '' @ numstr @ '': invalid\<newline>'')
        else if (ll = LLONG_MIN \<and> erange) \<or> ll < minval
        then Inl (''strtoll '' @ numstr @ '': too small\<newline>'')
        else if (ll = LLONG_MAX \<and> erange) \<or> ll > maxval
        then Inl (''strtoll '' @ numstr @ '': too large\<newline>'')
        else Inr ll)"

text \<open>
  \<^verbatim>\<open>parseoperand_key\<close>: \<open>arg1 = None\<close> is the null pointer that ends \<^verbatim>\<open>argv\<close>. The
  conversions to \<^verbatim>\<open>cc_t\<close> keep the low eight bits.
\<close>

definition parseoperand_key :: "env \<Rightarrow> string \<Rightarrow> string option \<Rightarrow> prog \<Rightarrow> prog option result"
  where
  "parseoperand_key env arg0 arg1 s =
     (case find (\<lambda>op. k_op op = arg0) keys of
        None \<Rightarrow> Inr None
      | Some op \<Rightarrow>
         (case arg1 of
            None \<Rightarrow> eprintf (''missing argument for operand: '' @ arg0 @ ''\<newline>'') s
          | Some a \<Rightarrow>
             andthen
               (if a = ''^-'' \<or> a = ''undef'' then Inr POSIX_VDISABLE
                else if a = ''^?'' then Inr 127
                else if a = [] \<or> tl a = [] then Inr (case a of [] \<Rightarrow> 0 | c # _ \<Rightarrow> of_char c)
                else if hd a = CHR ''^'' then Inr (of_char (a ! 1) AND NOT 0x60)
                else case estrtonum_anyradix env a 0 CC_MAX of
                       Inl msg \<Rightarrow> eprintf msg s
                     | Inr ll \<Rightarrow> Inr (word_of_int ll))
               (\<lambda>v. Inr (Some (s\<lparr>mode := (mode s)\<lparr>c_cc := (c_cc (mode s))(k_index op := v)\<rparr>\<rparr>)))))"

definition setwinsize :: "env \<Rightarrow> int \<Rightarrow> int \<Rightarrow> prog \<Rightarrow> prog result" where
  "setwinsize env y x s =
     (if \<not> tiocgwinsz_ok env then eprintf ''TIOCGWINSZ <stdin>:'' s
      else
        let w = tty_winsize s;
            w1 = (if y \<ge> 0 then w\<lparr>ws_row := word_of_int y\<rparr> else w);
            w2 = (if x \<ge> 0 then w1\<lparr>ws_col := word_of_int x\<rparr> else w1)
        in if \<not> tiocswinsz_ok env then eprintf ''TIOCSWINSZ <stdin>:'' s
           else Inr (s\<lparr>tty_winsize := w2\<rparr>))"

definition parsespeed :: "string \<Rightarrow> speed_entry option" where
  "parsespeed arg = find (\<lambda>sp. sp_str sp = arg) speeds"

definition eparsespeed :: "string \<Rightarrow> prog \<Rightarrow> speed_entry result" where
  "eparsespeed arg s =
     (case parsespeed arg of
        None \<Rightarrow> eprintf (''invalid speed parameter: '' @ arg @ ''\<newline>'') s
      | Some sp \<Rightarrow> Inr sp)"

definition cols :: "env \<Rightarrow> string \<Rightarrow> prog \<Rightarrow> prog result" where
  "cols env arg s =
     (case estrtonum env arg 0 USHRT_MAX of
        Inl msg \<Rightarrow> eprintf msg s | Inr v \<Rightarrow> setwinsize env (- 1) v s)"

definition min' :: "env \<Rightarrow> string \<Rightarrow> prog \<Rightarrow> prog result" where
  "min' env arg s =
     (case estrtonum env arg 0 CC_MAX of
        Inl msg \<Rightarrow> eprintf msg s
      | Inr v \<Rightarrow> Inr (s\<lparr>mode := (mode s)\<lparr>c_cc := (c_cc (mode s))(VMIN := word_of_int v)\<rparr>\<rparr>))"

definition rows :: "env \<Rightarrow> string \<Rightarrow> prog \<Rightarrow> prog result" where
  "rows env arg s =
     (case estrtonum env arg 0 USHRT_MAX of
        Inl msg \<Rightarrow> eprintf msg s | Inr v \<Rightarrow> setwinsize env v (- 1) s)"

definition stime :: "env \<Rightarrow> string \<Rightarrow> prog \<Rightarrow> prog result" where
  "stime env arg s =
     (case estrtonum env arg 0 CC_MAX of
        Inl msg \<Rightarrow> eprintf msg s
      | Inr v \<Rightarrow> Inr (s\<lparr>mode := (mode s)\<lparr>c_cc := (c_cc (mode s))(VTIME := word_of_int v)\<rparr>\<rparr>))"

definition ispeed :: "env \<Rightarrow> string \<Rightarrow> prog \<Rightarrow> prog result" where
  "ispeed env arg s =
     andthen (eparsespeed arg s)
       (\<lambda>sp. case cfsetispeed env (sp_speed sp) (mode s) of
                None \<Rightarrow> eprintf (''cfsetispeed '' @ sp_str sp @ '':'') s
              | Some m \<Rightarrow> Inr (s\<lparr>mode := m\<rparr>))"

definition ospeed :: "env \<Rightarrow> string \<Rightarrow> prog \<Rightarrow> prog result" where
  "ospeed env arg s =
     andthen (eparsespeed arg s)
       (\<lambda>sp. case cfsetospeed env (sp_speed sp) (mode s) of
                None \<Rightarrow> eprintf (''cfsetospeed '' @ sp_str sp @ '':'') s
              | Some m \<Rightarrow> Inr (s\<lparr>mode := m\<rparr>))"

fun callint :: "intfun \<Rightarrow> env \<Rightarrow> string \<Rightarrow> prog \<Rightarrow> prog result" where
  "callint I_cols env arg s = cols env arg s"
| "callint I_min env arg s = min' env arg s"
| "callint I_rows env arg s = rows env arg s"
| "callint I_stime env arg s = stime env arg s"
| "callint I_ispeed env arg s = ispeed env arg s"
| "callint I_ospeed env arg s = ospeed env arg s"

definition parseoperand_int :: "env \<Rightarrow> string \<Rightarrow> string option \<Rightarrow> prog \<Rightarrow> prog option result"
  where
  "parseoperand_int env arg0 arg1 s =
     (case find (\<lambda>op. i_op op = arg0) ints of
        None \<Rightarrow> Inr None
      | Some op \<Rightarrow>
         (case arg1 of
            None \<Rightarrow> eprintf (''missing argument for operand: '' @ arg0 @ ''\<newline>'') s
          | Some a \<Rightarrow> andthen (callint (i_fun op) env a s) (\<lambda>s1. Inr (Some s1))))"

text \<open>
  \<^verbatim>\<open>baudtostr\<close>: the \<^verbatim>\<open>while\<close> loop walks the table from its first entry and stops
  at the terminating entry or at an entry of the given speed.
\<close>

fun baudtostr_loop :: "speed_entry list \<Rightarrow> speed_t \<Rightarrow> string" where
  "baudtostr_loop [] baud = ''0''"
| "baudtostr_loop (sp # sps) baud =
     (if sp_speed sp \<noteq> baud then baudtostr_loop sps baud else sp_str sp)"

definition baudtostr :: "speed_t \<Rightarrow> string" where
  "baudtostr baud = baudtostr_loop speeds baud"

definition linetostr :: "8 word \<Rightarrow> string option" where
  "linetostr v = map_option ln_str (find (\<lambda>ln. ln_value ln = v) lines)"

definition line :: "env \<Rightarrow> string \<Rightarrow> prog \<Rightarrow> prog result" where
  "line env arg s =
     (case find (\<lambda>ln. ln_str ln = arg) lines of
        Some ln \<Rightarrow> Inr (s\<lparr>mode := (mode s)\<lparr>c_line := ln_value ln\<rparr>\<rparr>)
      | None \<Rightarrow>
         (case estrtonum env arg 0 255 of
            Inl msg \<Rightarrow> eprintf msg s
          | Inr v \<Rightarrow> Inr (s\<lparr>mode := (mode s)\<lparr>c_line := word_of_int v\<rparr>\<rparr>)))"

section \<open>State codec\<close>

text \<open>The classification functions of \<^verbatim>\<open>ctype.h\<close> in the C locale.\<close>

definition between :: "char \<Rightarrow> char \<Rightarrow> char \<Rightarrow> bool" where
  "between lo hi c = ((of_char lo :: nat) \<le> of_char c \<and> (of_char c :: nat) \<le> of_char hi)"

definition isdigit :: "char \<Rightarrow> bool" where
  "isdigit c = between (CHR ''0'') (CHR ''9'') c"

definition isxdigit :: "char \<Rightarrow> bool" where
  "isxdigit c =
     (isdigit c \<or> between (CHR ''a'') (CHR ''f'') c \<or> between (CHR ''A'') (CHR ''F'') c)"

definition isxnumber :: "string \<Rightarrow> bool" where
  "isxnumber str = (str \<noteq> [] \<and> list_all isxdigit str)"

text \<open>
  \<^verbatim>\<open>decodehex\<close>: \<open>hexval\<close> is the statement that turns \<^verbatim>\<open>hi\<close> (and \<^verbatim>\<open>lo\<close>) into
  its value; the result is the bytes stored through \<^verbatim>\<open>dest\<close>. On a string of odd
  length the source reads the terminator as \<^verbatim>\<open>lo\<close> and goes on reading behind it:
  \<open>None\<close>. \<^verbatim>\<open>main\<close> only calls it on a string of even length.
\<close>

definition hexval :: "char \<Rightarrow> 8 word" where
  "hexval c = (of_char c AND 15) + 9 * (if isdigit c then 0 else 1)"

fun decodehex :: "string \<Rightarrow> 8 word list option" where
  "decodehex [] = Some []"
| "decodehex [hi] = None"
| "decodehex (hi # lo # src) =
     map_option (\<lambda>dest. (push_bit 4 (hexval hi) OR hexval lo) # dest) (decodehex src)"

text \<open>
  The encoding loop of \<^verbatim>\<open>main\<close>: \<^verbatim>\<open>printf("%02x", *buf)\<close> for every byte of the
  structure, in address order.
\<close>

definition hexdigit :: "nat \<Rightarrow> char" where
  "hexdigit n = ''0123456789abcdef'' ! n"

definition hex02 :: "8 word \<Rightarrow> string" where
  "hex02 b = [hexdigit (unat b div 16), hexdigit (unat b mod 16)]"

definition encodehex :: "8 word list \<Rightarrow> string" where
  "encodehex buf = concat (map hex02 buf)"

text \<open>
  The object representation of \<^verbatim>\<open>struct termios\<close> on the platform: sixty bytes, the
  32-bit fields in little-endian order.
\<close>

definition sizeof_termios :: nat where
  "sizeof_termios = 60"

definition bytes32 :: "32 word \<Rightarrow> 8 word list" where
  "bytes32 w = [ucast w, ucast (drop_bit 8 w), ucast (drop_bit 16 w), ucast (drop_bit 24 w)]"

definition le32 :: "8 word list \<Rightarrow> 32 word" where
  "le32 bs = ucast (bs ! 0) OR push_bit 8 (ucast (bs ! 1)) OR push_bit 16 (ucast (bs ! 2))
             OR push_bit 24 (ucast (bs ! 3))"

definition termios_bytes :: "termios \<Rightarrow> 8 word list" where
  "termios_bytes m =
     bytes32 (c_iflag m) @ bytes32 (c_oflag m) @ bytes32 (c_cflag m) @ bytes32 (c_lflag m)
     @ [c_line m] @ map (c_cc m) [0..<NCCS]
     @ (case c_pad m of (p0, p1, p2) \<Rightarrow> [p0, p1, p2])
     @ bytes32 (c_ispeed m) @ bytes32 (c_ospeed m)"

definition bytes_termios :: "8 word list \<Rightarrow> termios" where
  "bytes_termios bs =
     \<lparr>c_iflag = le32 (take 4 bs),
      c_oflag = le32 (take 4 (drop 4 bs)),
      c_cflag = le32 (take 4 (drop 8 bs)),
      c_lflag = le32 (take 4 (drop 12 bs)),
      c_line = bs ! 16,
      c_cc = (\<lambda>i. if i < NCCS then bs ! (17 + i) else 0),
      c_pad = (bs ! 49, bs ! 50, bs ! 51),
      c_ispeed = le32 (take 4 (drop 52 bs)),
      c_ospeed = le32 (take 4 (drop 56 bs))\<rparr>"

section \<open>Display formatter\<close>

text \<open>The conversion \<^verbatim>\<open>%u\<close>.\<close>

fun decimal :: "nat \<Rightarrow> string" where
  "decimal n =
     (if n < 10 then [''0123456789'' ! n] else decimal (n div 10) @ [''0123456789'' ! (n mod 10)])"

declare decimal.simps [simp del]

text \<open>
  A call of \<^verbatim>\<open>printtoken\<close>: \<open>Newline\<close> is the call with the format \<^verbatim>\<open>"\n"\<close>,
  \<open>Tok t\<close> a call with another format, \<open>t\<close> being the text \<^verbatim>\<open>vsnprintf\<close> produces.
\<close>

datatype token = Newline | Tok string

definition printtoken :: "env \<Rightarrow> token \<Rightarrow> prog \<Rightarrow> prog result" where
  "printtoken env t s0 =
     (let s = (if pt_width s0 = 0
               then s0\<lparr>pt_width :=
                         (case stdout_cols env of
                            Some c \<Rightarrow> if unat c > 40 then unat c else SIZE_MAX
                          | None \<Rightarrow> SIZE_MAX)\<rparr>
               else s0)
      in case t of
           Newline \<Rightarrow>
             Inr (s\<lparr>out := out s @ (if pt_pos s \<noteq> 0 then ''\<newline>'' else []), pt_pos := 0\<rparr>)
         | Tok buf \<Rightarrow>
             if length buf \<ge> BUFSIZ then eprintf ''vsnprintf:'' s
             else
               let s1 = (if pt_pos s + (if pt_pos s \<noteq> 0 then 1 else 0) + length buf > pt_width s
                         then s\<lparr>out := out s @ ''\<newline>'', pt_pos := 0\<rparr>
                         else if pt_pos s \<noteq> 0
                         then s\<lparr>out := out s @ '' '', pt_pos := pt_pos s + 1\<rparr>
                         else s)
               in Inr (s1\<lparr>out := out s1 @ buf, pt_pos := pt_pos s1 + length buf\<rparr>))"

fun printtokens :: "env \<Rightarrow> token list \<Rightarrow> prog \<Rightarrow> prog result" where
  "printtokens env [] s = Inr s"
| "printtokens env (t # ts) s = andthen (printtoken env t s) (printtokens env ts)"

definition keytostr :: "cc_t \<Rightarrow> string" where
  "keytostr key =
     (if key = POSIX_VDISABLE then ''undef''
      else if key < 32 then [CHR ''^'', char_of (unat key + 64)]
      else if key < 127 then [char_of (unat key)]
      else if key = 127 then ''^?''
      else if key < 128 + 32 then ''M-^'' @ [char_of (unat key - 128 + 64)]
      else if key = 128 + 127 then ''M-^?''
      else ''M-'' @ [char_of (unat key - 128)])"

definition isdefault :: "32 word \<Rightarrow> bool" where
  "isdefault flags =
     (if flags AND (SANE OR INSANE) \<noteq> 0
      then flags AND SANE \<noteq> 0 \<or> \<not> (flags AND INSANE \<noteq> 0)
      else flags AND DEF \<noteq> 0)"

text \<open>
  The \<^verbatim>\<open>switch\<close> of \<^verbatim>\<open>displaysettings\<close> that selects the flag group of an
  entry: the value \<^verbatim>\<open>*bitsp\<close>, or \<open>None\<close> where \<^verbatim>\<open>bitsp\<close> is null.
\<close>

definition bitsp :: "type \<Rightarrow> termios \<Rightarrow> tcflag_t option" where
  "bitsp t m =
     (case t of
        CTRL \<Rightarrow> Some (c_cflag m)
      | IN \<Rightarrow> Some (c_iflag m)
      | OUT \<Rightarrow> Some (c_oflag m)
      | LOCAL \<Rightarrow> Some (c_lflag m)
      | _ \<Rightarrow> None)"

text \<open>
  The calls of \<^verbatim>\<open>printtoken\<close> that one pass of the last loop of \<^verbatim>\<open>displaysettings\<close>
  makes for the catalog entry \<open>mod'\<close> (none or one), and those of the whole loop.
\<close>

definition modetoken :: "termios \<Rightarrow> bool \<Rightarrow> mode_entry \<Rightarrow> token list" where
  "modetoken m all mod' =
     (case bitsp (m_type mod') m of
        None \<Rightarrow> []
      | Some bits \<Rightarrow>
         if m_flags mod' AND DUP \<noteq> 0 then []
         else
           let mask = (if m_clear mod' \<noteq> 0 then m_clear mod' else m_set mod')
           in if bits AND mask = m_set mod'
              then (if all \<or> \<not> isdefault (m_flags mod') then [Tok (m_op mod')] else [])
              else if m_flags mod' AND BOOL \<noteq> 0
              then (if all \<or> isdefault (m_flags mod') then [Tok (CHR ''-'' # m_op mod')] else [])
              else [])"

definition modetokens :: "termios \<Rightarrow> bool \<Rightarrow> token list" where
  "modetokens m all = concat (map (modetoken m all) modes)"

definition keytokens :: "termios \<Rightarrow> bool \<Rightarrow> token list" where
  "keytokens m all =
     concat (map (\<lambda>kbd. if all \<or> c_cc m (k_index kbd) \<noteq> k_sanevalue kbd
                        then [Tok (k_op kbd @ '' = '' @ keytostr (c_cc m (k_index kbd)) @ '';'')]
                        else []) keys)"

definition linetokens :: "termios \<Rightarrow> bool \<Rightarrow> token list" where
  "linetokens m all =
     (if all \<or> c_line m \<noteq> 0
      then (case linetostr (c_line m) of
              Some linestr \<Rightarrow> [Tok (''line = '' @ linestr @ '';'')]
            | None \<Rightarrow> [Tok (''line = '' @ decimal (unat (c_line m)) @ '';'')])
      else [])
     @ (if all \<or> (c_cc m VMIN \<noteq> 1 \<and> c_lflag m AND ICANON = 0)
        then [Tok (''min = '' @ decimal (unat (c_cc m VMIN)) @ '';'')] else [])
     @ (if all \<or> (c_cc m VTIME \<noteq> 0 \<and> c_lflag m AND ICANON = 0)
        then [Tok (''time = '' @ decimal (unat (c_cc m VTIME)) @ '';'')] else [])"

definition speedtokens :: "env \<Rightarrow> termios \<Rightarrow> bool \<Rightarrow> token list" where
  "speedtokens env m all =
     (let i = cfgetispeed env m; out = cfgetospeed env m
      in if i = 0 \<or> i = out
         then (if all \<or> out \<noteq> B38400 then [Tok (''speed '' @ baudtostr out @ '' baud;'')] else [])
         else [Tok (''ispeed '' @ baudtostr i @ '' baud;''),
               Tok (''ospeed '' @ baudtostr out @ '' baud;'')])"

definition displaysettings :: "env \<Rightarrow> bool \<Rightarrow> prog \<Rightarrow> prog result" where
  "displaysettings env all s =
     (let m = mode s
      in andthen (printtokens env (speedtokens env m all) s)
          (\<lambda>s1. andthen
             (if all
              then if \<not> tiocgwinsz_ok env then eprintf ''TIOCGWINSZ <stdin>:'' s1
                   else printtokens env
                          [Tok (''rows '' @ decimal (unat (ws_row (tty_winsize s1))) @ '';''),
                           Tok (''columns '' @ decimal (unat (ws_col (tty_winsize s1))) @ '';'')] s1
              else Inr s1)
             (printtokens env
                ([Newline] @ linetokens m all @ [Newline] @ keytokens m all @ [Newline]
                 @ modetokens m all @ [Newline]))))"

section \<open>The operand loop and \<^verbatim>\<open>main\<close>\<close>

text \<open>
  One pass of the operand loop of \<^verbatim>\<open>main\<close> on the token \<open>arg0\<close>, followed in
  \<^verbatim>\<open>argv\<close> by \<open>arg1\<close> (\<open>None\<close>: the terminating null pointer). The result tells
  whether the pass consumed the following token too.
\<close>

definition invalid :: "string \<Rightarrow> prog \<Rightarrow> 'a result" where
  "invalid arg s = eprintf (''invalid operand: '' @ arg @ ''\<newline>'') s"

definition operand :: "env \<Rightarrow> string \<Rightarrow> string option \<Rightarrow> prog \<Rightarrow> (bool \<times> prog) result" where
  "operand env arg0 arg1 s =
     (if arg0 \<noteq> [] \<and> hd arg0 = CHR ''=''
      then
        let p = tl arg0
        in if length p \<noteq> sizeof_termios * 2 \<or> \<not> isxnumber p then invalid arg0 s
           else (case decodehex p of
                   None \<Rightarrow> Inl (Undefined, s)
                 | Some bs \<Rightarrow> Inr (False, s\<lparr>mode := bytes_termios bs\<rparr>))
      else
        andthen (parseoperand_mode arg0 s)
          (\<lambda>r. case r of
             Some s1 \<Rightarrow> Inr (False, s1)
           | None \<Rightarrow>
              andthen (parseoperand_key env arg0 arg1 s)
                (\<lambda>r. case r of
                   Some s1 \<Rightarrow> Inr (True, s1)
                 | None \<Rightarrow>
                    andthen (parseoperand_int env arg0 arg1 s)
                      (\<lambda>r. case r of
                         Some s1 \<Rightarrow> Inr (True, s1)
                       | None \<Rightarrow>
                          if arg0 = ''line''
                          then (case arg1 of
                                  None \<Rightarrow> eprintf (''missing argument for operand: '' @ arg0
                                                     @ ''\<newline>'') s
                                | Some a \<Rightarrow> andthen (line env a s) (\<lambda>s1. Inr (True, s1)))
                          else
                            (case parsespeed arg0 of
                               Some sp \<Rightarrow>
                                (case cfsetispeed env (sp_speed sp) (mode s) of
                                   None \<Rightarrow> eprintf (''cfsetispeed '' @ sp_str sp @ '':'') s
                                 | Some m1 \<Rightarrow>
                                    (case cfsetospeed env (sp_speed sp) m1 of
                                       None \<Rightarrow> eprintf (''cfsetospeed '' @ sp_str sp @ '':'')
                                                 (s\<lparr>mode := m1\<rparr>)
                                     | Some m2 \<Rightarrow> Inr (False, s\<lparr>mode := m2\<rparr>)))
                             | None \<Rightarrow> invalid arg0 s)))))"

function operands :: "env \<Rightarrow> string list \<Rightarrow> prog \<Rightarrow> prog result" where
  "operands env [] s = Inr s"
| "operands env (arg0 # argv) s =
     (case operand env arg0 (case argv of [] \<Rightarrow> None | arg1 # _ \<Rightarrow> Some arg1) s of
        Inl e \<Rightarrow> Inl e
      | Inr (two, s1) \<Rightarrow> operands env (if two then tl argv else argv) s1)"
  by pat_completeness auto
termination
  by (relation "measure (\<lambda>(env, argv, s). length argv)") auto

text \<open>
  The option loop of \<^verbatim>\<open>main\<close>: the values of \<^verbatim>\<open>aflag\<close> and \<^verbatim>\<open>gflag\<close> and the
  arguments left when it ends. \<^verbatim>\<open>argc\<close> then is the number of those.
\<close>

fun options :: "bool \<Rightarrow> bool \<Rightarrow> string list \<Rightarrow> bool \<times> bool \<times> string list" where
  "options aflag gflag [] = (aflag, gflag, [])"
| "options aflag gflag (arg # argv) =
     (if arg = ''-ag'' \<or> arg = ''-ga'' then options True True argv
      else if arg = ''-g'' then options aflag True argv
      else if arg = ''-a'' then options True gflag argv
      else if arg = ''--'' then (aflag, gflag, argv)
      else (aflag, gflag, arg # argv))"

definition usage :: "string \<Rightarrow> prog \<Rightarrow> 'a result" where
  "usage argv0 s = eprintf (''usage: '' @ argv0 @ '' [-a | -g] [operand ...]\<newline>'') s"

text \<open>
  \<^verbatim>\<open>main\<close>, called with \<^verbatim>\<open>argv[0]\<close> and the arguments after it. \<open>Inr s\<close> is
  \<^verbatim>\<open>return 0\<close>. The second copy \<^verbatim>\<open>mode2\<close> is local to the function.
\<close>

definition commit :: "env \<Rightarrow> termios \<Rightarrow> prog \<Rightarrow> prog result" where
  "commit env mode2 s =
     (if termios_bytes (mode s) \<noteq> termios_bytes mode2
      then (case tcsetattr env (drain_requested s) (tty s) (mode s) of
              None \<Rightarrow> eprintf ''tcsetattr <stdin>:'' s
            | Some t \<Rightarrow>
               let s1 = s\<lparr>tty := t\<rparr>
               in if \<not> tcgetattr_ok env then eprintf ''tcgetattr <stdin>:'' s1
                  else if termios_bytes (mode s1) \<noteq> termios_bytes (tty s1)
                  then eprintf ''tcsetattr <stdin>: unable to apply all operands\<newline>'' s1
                  else Inr s1)
      else Inr s)"

definition report :: "env \<Rightarrow> bool \<Rightarrow> bool \<Rightarrow> bool \<Rightarrow> prog \<Rightarrow> prog result" where
  "report env aflag gflag noargs s =
     (let s1 = (if gflag
                then s\<lparr>out := out s @ ''='' @ encodehex (termios_bytes (mode s)) @ ''\<newline>''\<rparr>
                else s)
      in andthen
           (if output_size_requested s1
            then if \<not> tiocgwinsz_ok env then eprintf ''TIOCGWINSZ <stdin>:'' s1
                 else Inr (s1\<lparr>out := out s1 @ decimal (unat (ws_row (tty_winsize s1))) @ '' ''
                                     @ decimal (unat (ws_col (tty_winsize s1))) @ ''\<newline>''\<rparr>)
            else Inr s1)
           (\<lambda>s2.
              let s3 = (if output_speed_requested s2
                        then let i = cfgetispeed env (mode s2); ou = cfgetospeed env (mode s2)
                             in if i = 0 \<or> i = ou
                                then s2\<lparr>out := out s2 @ baudtostr ou @ ''\<newline>''\<rparr>
                                else s2\<lparr>out := out s2 @ baudtostr i @ '' '' @ baudtostr ou
                                                 @ ''\<newline>''\<rparr>
                        else s2)
              in if (aflag \<or> noargs) \<and> \<not> gflag then displaysettings env aflag s3 else Inr s3))"

definition main :: "env \<Rightarrow> string \<Rightarrow> string list \<Rightarrow> prog \<Rightarrow> prog result" where
  "main env argv0 args s =
     (case options False False args of (aflag, gflag, argv) \<Rightarrow>
        if aflag \<and> gflag then usage argv0 s
        else if \<not> tcgetattr_ok env then eprintf ''tcgetattr <stdin>:'' s
        else
          let s0 = s\<lparr>mode := tty s\<rparr>; mode2 = tty s
          in andthen (operands env argv s0)
               (\<lambda>s1. andthen (commit env mode2 s1)
                  (report env aflag gflag (argv = []))))"


section \<open>Operand classes\<close>

text \<open>
  The operand classes of the specification (section 4.2), as tests on a token: a raw
  state literal begins with \<open>=\<close>; a mode operand is a catalog name, or \<open>-\<close> and the
  name of an entry tagged \<open>BOOL\<close>; a key, integer-valued or speed operand is a name of
  the respective table; the line operand is the word \<open>line\<close>.
\<close>

definition is_literal :: "string \<Rightarrow> bool" where
  "is_literal tok = (tok \<noteq> [] \<and> hd tok = CHR ''='')"

definition is_mode :: "string \<Rightarrow> bool" where
  "is_mode tok =
     (if tok \<noteq> [] \<and> hd tok = CHR ''-''
      then tl tok \<in> m_op ` {op \<in> set modes. m_flags op AND BOOL \<noteq> 0}
      else tok \<in> m_op ` set modes)"

definition is_key :: "string \<Rightarrow> bool" where
  "is_key tok = (tok \<in> k_op ` set keys)"

definition is_int :: "string \<Rightarrow> bool" where
  "is_int tok = (tok \<in> i_op ` set ints)"

definition is_line :: "string \<Rightarrow> bool" where
  "is_line tok = (tok = ''line'')"

definition is_speed :: "string \<Rightarrow> bool" where
  "is_speed tok = (tok \<in> sp_str ` set speeds)"

definition no_operand_class :: "string \<Rightarrow> bool" where
  "no_operand_class tok =
     (\<not> is_literal tok \<and> \<not> is_mode tok \<and> \<not> is_key tok \<and> \<not> is_int tok
      \<and> \<not> is_line tok \<and> \<not> is_speed tok)"

section \<open>A concrete environment and terminal\<close>

text \<open>
  An instance of the environment and of the state, to run the model on concrete command
  lines: numbers are plain decimal digit strings, the speed functions use the two speed
  fields, the driver accepts every request, every call succeeds and the terminal has 24
  rows and 80 columns; the terminal is in the usual cooked state at 38400 baud.
\<close>

fun digits_val :: "string \<Rightarrow> nat \<Rightarrow> nat option" where
  "digits_val [] acc = Some acc"
| "digits_val (c # cs) acc =
     (if isdigit c then digits_val cs (10 * acc + (of_char c - 48)) else None)"

definition env0 :: env where
  "env0 =
     \<lparr>estrtonum = (\<lambda>str lo hi.
          case (if str = [] then None else digits_val str 0) of
            None \<Rightarrow> Inl (''strtonum '' @ str @ '': invalid\<newline>'')
          | Some n \<Rightarrow>
              if int n < lo then Inl (''strtonum '' @ str @ '': too small\<newline>'')
              else if int n > hi then Inl (''strtonum '' @ str @ '': too large\<newline>'')
              else Inr (int n)),
      strtoll = (\<lambda>str.
          case (if str = [] then None else digits_val str 0) of
            None \<Rightarrow> (0, 0, False)
          | Some n \<Rightarrow> (int n, length str, False)),
      cfsetispeed = (\<lambda>sp m. Some (m\<lparr>c_ispeed := sp\<rparr>)),
      cfsetospeed = (\<lambda>sp m. Some (m\<lparr>c_ospeed := sp\<rparr>)),
      cfgetispeed = c_ispeed,
      cfgetospeed = c_ospeed,
      tcsetattr = (\<lambda>drain cur req. Some req),
      tcgetattr_ok = True,
      tiocgwinsz_ok = True,
      tiocswinsz_ok = True,
      stdout_cols = Some 80\<rparr>"

definition t0 :: termios where
  "t0 =
     \<lparr>c_iflag = ICRNL OR IXON,
      c_oflag = OPOST OR ONLCR,
      c_cflag = CS8 OR CREAD,
      c_lflag = ISIG OR ICANON OR ECHO OR ECHOE OR ECHOK OR IEXTEN,
      c_line = N_TTY,
      c_cc = (\<lambda>_. 0)(VINTR := CINTR, VERASE := CERASE, VKILL := CKILL, VEOF := CEOF, VMIN := 1),
      c_pad = (0, 0, 0),
      c_ispeed = B38400,
      c_ospeed = B38400\<rparr>"

definition s0 :: prog where
  "s0 =
     \<lparr>mode = t0,
      output_size_requested = False,
      output_speed_requested = False,
      drain_requested = True,
      tty = t0,
      tty_winsize = \<lparr>ws_row = 24, ws_col = 80, ws_xpixel = 0, ws_ypixel = 0\<rparr>,
      out = [],
      pt_width = 0,
      pt_pos = 0\<rparr>"

section \<open>Basic facts\<close>

lemma andthen_Inl [simp]: "andthen (Inl e) f = Inl e"
  by (simp add: andthen_def)

lemma andthen_Inr [simp]: "andthen (Inr x) f = f x"
  by (simp add: andthen_def)

lemma find_by_name:
  "distinct (map f xs) \<Longrightarrow> x \<in> set xs \<Longrightarrow> find (\<lambda>e. f e = f x) xs = Some x"
  by (induction xs) auto

lemma find_None_iff_name: "find (\<lambda>e. f e = n) xs = None \<longleftrightarrow> n \<notin> f ` set xs"
  by (induction xs) auto

lemma find_Some_name: "find (\<lambda>e. f e = n) xs = Some x \<Longrightarrow> x \<in> set xs \<and> f x = n"
  by (induction xs) (auto split: if_splits)

subsection \<open>Facts about the catalog of mode operands\<close>

lemma modes_distinct: "distinct (map m_op modes)"
  by (simp add: modes_def)

lemma modes_first_char:
  "\<forall>op\<in>set modes. m_op op \<noteq> [] \<and> hd (m_op op) \<noteq> CHR ''-'' \<and> hd (m_op op) \<noteq> CHR ''=''"
  by (simp add: modes_def)

lemma modes_group_no_fun:
  "\<forall>op\<in>set modes. m_type op \<noteq> COMB \<and> m_type op \<noteq> SPEC \<longrightarrow> m_fun op = None"
  by (simp add: modes_def)

lemma modes_bool_no_clear:
  "\<forall>op\<in>set modes. m_type op \<noteq> COMB \<and> m_type op \<noteq> SPEC \<and> m_flags op AND BOOL \<noteq> 0
     \<longrightarrow> m_clear op = 0"
  by (simp add: modes_def termbits)

lemma find_mode:
  "op \<in> set modes \<Longrightarrow> find (\<lambda>e. m_op e = m_op op) modes = Some op"
  by (rule find_by_name [OF modes_distinct])

lemma find_raw:
  "find (\<lambda>op. m_op op = ''raw'') modes
     = Some (Mode ''raw'' COMB 0 COOKED (Some F_raw) (BOOL OR DUP))"
  by (simp add: modes_def)

lemma find_evenp:
  "find (\<lambda>op. m_op op = ''evenp'') modes
     = Some (Mode ''evenp'' COMB 0 0 (Some F_evenp) (BOOL OR DUP))"
  by (simp add: modes_def)

lemma find_parity:
  "find (\<lambda>op. m_op op = ''parity'') modes
     = Some (Mode ''parity'' COMB 0 0 (Some F_evenp) (BOOL OR DUP))"
  by (simp add: modes_def)

lemma find_oddp:
  "find (\<lambda>op. m_op op = ''oddp'') modes
     = Some (Mode ''oddp'' COMB 0 0 (Some F_oddp) (BOOL OR DUP))"
  by (simp add: modes_def)

subsection \<open>Bit patterns\<close>

lemma and_not_same_iff: "x AND NOT b = x \<longleftrightarrow> x AND b = 0" for x b :: "32 word"
  by (auto simp: bit_eq_iff bit_simps)

lemma or_then_and_not: "(x OR b) AND NOT b = x AND NOT b" for x b :: "32 word"
  by (auto simp: bit_eq_iff bit_simps)

section \<open>The flag mutation primitive\<close>

lemma setoperand_mode_plain:
  assumes "m_fun op = None"
  shows "setoperand_mode unset op s =
     (let mutate = (\<lambda>bits. if unset then (bits AND NOT (m_clear op)) AND NOT (m_set op)
                            else (bits AND NOT (m_clear op)) OR m_set op);
          m = mode s
      in case m_type op of
           CTRL \<Rightarrow> Inr (s\<lparr>mode := m\<lparr>c_cflag := mutate (c_cflag m)\<rparr>\<rparr>)
         | IN \<Rightarrow> Inr (s\<lparr>mode := m\<lparr>c_iflag := mutate (c_iflag m)\<rparr>\<rparr>)
         | OUT \<Rightarrow> Inr (s\<lparr>mode := m\<lparr>c_oflag := mutate (c_oflag m)\<rparr>\<rparr>)
         | LOCAL \<Rightarrow> Inr (s\<lparr>mode := m\<lparr>c_lflag := mutate (c_lflag m)\<rparr>\<rparr>)
         | SPEC \<Rightarrow> Inr s
         | COMB \<Rightarrow> Inl (Abort, s))"
  using assms by (cases "m_type op") (simp_all add: setoperand_mode_def Let_def)

text \<open>
  C9. Applied to an entry of a flag group that has set-bits \<open>st\<close>, clear-bits \<open>cl\<close>
  and no routine, \<^verbatim>\<open>setoperand_mode\<close> first removes \<open>cl\<close> from that flag group and
  then, for the set polarity, adds \<open>st\<close>, and for the unset polarity removes \<open>st\<close>;
  nothing else of the state changes. This holds whatever \<open>st\<close> and \<open>cl\<close> are, so also
  where they overlap, as for the character sizes; and every entry of the catalog that
  addresses a flag group is such an entry without a routine.
\<close>

theorem flag_mutation_clear_then_set:
  "setoperand_mode unset (Mode n CTRL st cl None fl) s =
     Inr (s\<lparr>mode := (mode s)\<lparr>c_cflag :=
            (if unset then (c_cflag (mode s) AND NOT cl) AND NOT st
             else (c_cflag (mode s) AND NOT cl) OR st)\<rparr>\<rparr>)
   \<and> setoperand_mode unset (Mode n IN st cl None fl) s =
     Inr (s\<lparr>mode := (mode s)\<lparr>c_iflag :=
            (if unset then (c_iflag (mode s) AND NOT cl) AND NOT st
             else (c_iflag (mode s) AND NOT cl) OR st)\<rparr>\<rparr>)
   \<and> setoperand_mode unset (Mode n OUT st cl None fl) s =
     Inr (s\<lparr>mode := (mode s)\<lparr>c_oflag :=
            (if unset then (c_oflag (mode s) AND NOT cl) AND NOT st
             else (c_oflag (mode s) AND NOT cl) OR st)\<rparr>\<rparr>)
   \<and> setoperand_mode unset (Mode n LOCAL st cl None fl) s =
     Inr (s\<lparr>mode := (mode s)\<lparr>c_lflag :=
            (if unset then (c_lflag (mode s) AND NOT cl) AND NOT st
             else (c_lflag (mode s) AND NOT cl) OR st)\<rparr>\<rparr>)
   \<and> (\<forall>op\<in>set modes. m_type op \<noteq> COMB \<and> m_type op \<noteq> SPEC \<longrightarrow> m_fun op = None)"
  using modes_group_no_fun by (simp add: setoperand_mode_def Let_def)

theorem flag_mutation_clear_then_set_witness:
  "Mode ''cs7'' CTRL CS7 CSIZE None 0 \<in> set modes
   \<and> c_cflag (mode s0) = CS8 OR CREAD
   \<and> setoperand_mode False (Mode ''cs7'' CTRL CS7 CSIZE None 0) s0 =
       Inr (s0\<lparr>mode := t0\<lparr>c_cflag := CS7 OR CREAD\<rparr>\<rparr>)
   \<and> setoperand_mode True (Mode ''cs7'' CTRL CS7 CSIZE None 0) s0 =
       Inr (s0\<lparr>mode := t0\<lparr>c_cflag := CS5 OR CREAD\<rparr>\<rparr>)"
proof -
  have "Mode ''cs7'' CTRL CS7 CSIZE None 0 \<in> set modes"
    by (simp add: modes_def)
  with flag_mutation_clear_then_set [of False "''cs7''" CS7 CSIZE 0 s0]
    flag_mutation_clear_then_set [of True "''cs7''" CS7 CSIZE 0 s0]
  show ?thesis
    by (simp add: s0_def t0_def termbits)
qed

section \<open>Combination operands\<close>

text \<open>
  C1. The routines \<^verbatim>\<open>evenp\<close> and \<^verbatim>\<open>oddp\<close> never change the control flag group:
  for the operands \<open>evenp\<close>, \<open>parity\<close> and \<open>oddp\<close> it is the output flag group
  \<open>c_oflag\<close> whose bits at the positions of \<open>CSIZE\<close>, \<open>PARENB\<close> and \<open>PARODD\<close> are
  recomputed, and nothing else of the state changes.
\<close>

theorem evenp_oddp_write_output_group:
  "parseoperand_mode ''evenp'' s =
     Inr (Some (s\<lparr>mode := (mode s)\<lparr>c_oflag :=
        ((c_oflag (mode s) AND NOT CSIZE) AND NOT PARODD) OR (CS7 OR PARENB)\<rparr>\<rparr>))
   \<and> parseoperand_mode ''parity'' s =
     Inr (Some (s\<lparr>mode := (mode s)\<lparr>c_oflag :=
        ((c_oflag (mode s) AND NOT CSIZE) AND NOT PARODD) OR (CS7 OR PARENB)\<rparr>\<rparr>))
   \<and> parseoperand_mode ''oddp'' s =
     Inr (Some (s\<lparr>mode := (mode s)\<lparr>c_oflag :=
        (c_oflag (mode s) AND NOT CSIZE) OR (CS7 OR PARODD OR PARENB)\<rparr>\<rparr>))
   \<and> c_cflag (evenp unset m) = c_cflag m
   \<and> c_cflag (oddp unset m) = c_cflag m"
proof -
  have "parseoperand_mode ''evenp'' s =
     Inr (Some (s\<lparr>mode := (mode s)\<lparr>c_oflag :=
        ((c_oflag (mode s) AND NOT CSIZE) AND NOT PARODD) OR (CS7 OR PARENB)\<rparr>\<rparr>))"
    by (simp add: parseoperand_mode_def find_evenp Let_def evenp_def)
  moreover have "parseoperand_mode ''parity'' s =
     Inr (Some (s\<lparr>mode := (mode s)\<lparr>c_oflag :=
        ((c_oflag (mode s) AND NOT CSIZE) AND NOT PARODD) OR (CS7 OR PARENB)\<rparr>\<rparr>))"
    by (simp add: parseoperand_mode_def find_parity Let_def evenp_def)
  moreover have "parseoperand_mode ''oddp'' s =
     Inr (Some (s\<lparr>mode := (mode s)\<lparr>c_oflag :=
        (c_oflag (mode s) AND NOT CSIZE) OR (CS7 OR PARODD OR PARENB)\<rparr>\<rparr>))"
    by (simp add: parseoperand_mode_def find_oddp Let_def oddp_def)
  moreover have "c_cflag (evenp unset m) = c_cflag m" "c_cflag (oddp unset m) = c_cflag m"
    by (simp_all add: evenp_def oddp_def)
  ultimately show ?thesis by blast
qed

text \<open>
  On the cooked terminal, with eight-bit characters and no parity, \<open>evenp\<close> leaves the
  control flags at eight bits without parity, and turns \<open>ONLRET\<close> and the newline delay
  on in the output flags.
\<close>

theorem evenp_oddp_write_output_group_witness:
  "parseoperand_mode ''evenp'' s0 =
     Inr (Some (s0\<lparr>mode := t0\<lparr>c_oflag := OPOST OR ONLCR OR ONLRET OR NL1\<rparr>\<rparr>))
   \<and> c_cflag t0 = CS8 OR CREAD
   \<and> c_cflag (evenp False t0) = CS8 OR CREAD"
  using evenp_oddp_write_output_group [of s0 False t0]
  by (simp add: s0_def t0_def) (simp add: termbits)

lemma parseoperand_mode_raw:
  "parseoperand_mode ''raw'' s =
     Inr (Some (s\<lparr>mode := (mode s)\<lparr>c_iflag := 0,
        c_oflag := c_oflag (mode s) AND NOT OPOST,
        c_lflag := ((c_lflag (mode s) AND NOT ICANON) AND NOT ISIG) AND NOT XCASE,
        c_cc := (c_cc (mode s))(VMIN := 1, VTIME := 0)\<rparr>\<rparr>))"
  unfolding parseoperand_mode_def
  by (simp add: find_raw Let_def) (simp add: modes_def termbits setoperand_mode_def raw_def Let_def)

lemma parseoperand_mode_unraw:
  "parseoperand_mode ''-raw'' s =
     Inr (Some (s\<lparr>mode := (mode s)\<lparr>
        c_iflag := c_iflag (mode s) OR (BRKINT OR IGNPAR OR ISTRIP OR ICRNL OR IXON),
        c_oflag := c_oflag (mode s) OR OPOST,
        c_lflag := (c_lflag (mode s) OR ICANON) OR ISIG\<rparr>\<rparr>))"
  unfolding parseoperand_mode_def
  by (simp add: find_raw Let_def) (simp add: modes_def termbits setoperand_mode_def raw_def Let_def)

text \<open>
  C8. From every state the operand \<open>raw\<close> is accepted and leaves the input flag group
  empty, \<open>VMIN\<close> at 1 and \<open>VTIME\<close> at 0; the operand \<open>-raw\<close> is accepted and leaves in
  the input flag group the bits it had together with \<open>BRKINT\<close>, \<open>IGNPAR\<close>,
  \<open>ISTRIP\<close>, \<open>ICRNL\<close> and \<open>IXON\<close>.
\<close>

theorem raw_combination:
  "(\<exists>s'. parseoperand_mode ''raw'' s = Inr (Some s')
          \<and> c_iflag (mode s') = 0
          \<and> c_cc (mode s') VMIN = 1
          \<and> c_cc (mode s') VTIME = 0)
   \<and> (\<exists>s'. parseoperand_mode ''-raw'' s = Inr (Some s')
          \<and> c_iflag (mode s') =
              c_iflag (mode s) OR (BRKINT OR IGNPAR OR ISTRIP OR ICRNL OR IXON))"
  by (simp add: parseoperand_mode_raw parseoperand_mode_unraw VMIN_def VTIME_def)

theorem raw_combination_witness:
  "(\<exists>s'. parseoperand_mode ''raw'' s0 = Inr (Some s')
          \<and> c_iflag (mode s') = 0
          \<and> c_cc (mode s') VMIN = 1
          \<and> c_cc (mode s') VTIME = 0)
   \<and> (\<exists>s'. parseoperand_mode ''-raw'' s0 = Inr (Some s')
          \<and> c_iflag (mode s') = 0x526)"
  using raw_combination [of s0] by (simp add: s0_def t0_def termbits)

section \<open>Negation of mode operands\<close>

lemma parseoperand_mode_group_set:
  assumes "op \<in> set modes" "m_type op \<noteq> COMB" "m_type op \<noteq> SPEC"
  shows "parseoperand_mode (m_op op) s =
           map_sum id Some (setoperand_mode False op s)"
proof -
  from assms(1) modes_first_char have "m_op op \<noteq> []" "hd (m_op op) \<noteq> CHR ''-''" by auto
  then show ?thesis
    using assms by (cases "setoperand_mode False op s") (simp_all add: parseoperand_mode_def find_mode)
qed

lemma parseoperand_mode_group_unset:
  assumes "op \<in> set modes" "m_type op \<noteq> COMB" "m_type op \<noteq> SPEC" "m_flags op AND BOOL \<noteq> 0"
  shows "parseoperand_mode (CHR ''-'' # m_op op) s =
           map_sum id Some (setoperand_mode True op s)"
  using assms by (cases "setoperand_mode True op s") (simp_all add: parseoperand_mode_def find_mode)

lemma set_then_unset:
  assumes "m_fun op = None" "m_clear op = 0" "m_type op \<noteq> COMB" "m_type op \<noteq> SPEC"
  shows "\<exists>s1 s2. setoperand_mode False op s = Inr s1 \<and> setoperand_mode True op s1 = Inr s2
           \<and> bitsp (m_type op) (mode s2)
               = map_option (\<lambda>bits. bits AND NOT (m_set op)) (bitsp (m_type op) (mode s))
           \<and> (\<forall>t. t \<noteq> m_type op \<longrightarrow> bitsp t (mode s2) = bitsp t (mode s))"
  using assms(3,4)
  by (cases "m_type op")
     (auto simp: setoperand_mode_plain [OF assms(1)] assms(2) bitsp_def or_then_and_not Let_def
           split: type.splits)

text \<open>
  C3, as amended. For an operand \<open>x\<close> of the catalog that is tagged \<open>BOOL\<close> and
  addresses a flag group, \<open>x\<close> and then \<open>-x\<close> are both accepted and leave that flag
  group equal to its bit pattern before \<open>x\<close> with the bits of \<open>x\<close> removed; the other
  flag groups are as before. So the flag group returns to its pattern before \<open>x\<close>
  exactly when no bit of \<open>x\<close> was set in it.
\<close>

theorem negation_clears_the_bits:
  assumes "op \<in> set modes" and "m_flags op AND BOOL \<noteq> 0"
    and "m_type op \<noteq> COMB" and "m_type op \<noteq> SPEC"
  shows "\<exists>s1 s2. parseoperand_mode (m_op op) s = Inr (Some s1)
           \<and> parseoperand_mode (CHR ''-'' # m_op op) s1 = Inr (Some s2)
           \<and> bitsp (m_type op) (mode s2)
               = map_option (\<lambda>bits. bits AND NOT (m_set op)) (bitsp (m_type op) (mode s))
           \<and> (\<forall>t. t \<noteq> m_type op \<longrightarrow> bitsp t (mode s2) = bitsp t (mode s))
           \<and> (bitsp (m_type op) (mode s2) = bitsp (m_type op) (mode s)
                \<longleftrightarrow> (\<exists>bits. bitsp (m_type op) (mode s) = Some bits \<and> bits AND m_set op = 0))"
proof -
  from assms modes_group_no_fun modes_bool_no_clear
  have nf: "m_fun op = None" and nc: "m_clear op = 0" by auto
  from set_then_unset [OF nf nc assms(3,4), of s]
  obtain s1 s2 where a: "setoperand_mode False op s = Inr s1"
    and b: "setoperand_mode True op s1 = Inr s2"
    and c: "bitsp (m_type op) (mode s2)
               = map_option (\<lambda>bits. bits AND NOT (m_set op)) (bitsp (m_type op) (mode s))"
    and d: "\<forall>t. t \<noteq> m_type op \<longrightarrow> bitsp t (mode s2) = bitsp t (mode s)"
    by blast
  have e: "bitsp (m_type op) (mode s2) = bitsp (m_type op) (mode s)
                \<longleftrightarrow> (\<exists>bits. bitsp (m_type op) (mode s) = Some bits \<and> bits AND m_set op = 0)"
    using assms(3,4) unfolding c
    by (cases "m_type op") (simp_all add: bitsp_def and_not_same_iff)
  have "parseoperand_mode (m_op op) s = Inr (Some s1)"
    by (simp add: parseoperand_mode_group_set [OF assms(1,3,4)] a)
  moreover have "parseoperand_mode (CHR ''-'' # m_op op) s1 = Inr (Some s2)"
    by (simp add: parseoperand_mode_group_unset [OF assms(1,3,4,2)] b)
  ultimately show ?thesis using c d e by blast
qed

theorem negation_clears_the_bits_witness:
  "Mode ''parenb'' CTRL PARENB 0 None (BOOL OR PASS8 OR LITOUT) \<in> set modes
   \<and> (BOOL OR PASS8 OR LITOUT) AND BOOL \<noteq> 0
   \<and> (\<exists>s1 s2. parseoperand_mode ''parenb'' s0 = Inr (Some s1)
          \<and> parseoperand_mode ''-parenb'' s1 = Inr (Some s2)
          \<and> c_cflag (mode s2) = c_cflag (mode s0))"
proof -
  have h1: "Mode ''parenb'' CTRL PARENB 0 None (BOOL OR PASS8 OR LITOUT) \<in> set modes"
    by (simp add: modes_def)
  have h2: "m_flags (Mode ''parenb'' CTRL PARENB 0 None (BOOL OR PASS8 OR LITOUT)) AND BOOL \<noteq> 0"
    by (simp add: termbits)
  have h3: "m_type (Mode ''parenb'' CTRL PARENB 0 None (BOOL OR PASS8 OR LITOUT)) \<noteq> COMB"
    and h4: "m_type (Mode ''parenb'' CTRL PARENB 0 None (BOOL OR PASS8 OR LITOUT)) \<noteq> SPEC"
    by simp_all
  have h5: "c_cflag (mode s0) AND PARENB = 0"
    by (simp add: s0_def t0_def termbits)
  from negation_clears_the_bits [OF h1 h2 h3 h4, of s0]
  obtain s1 s2 where "parseoperand_mode ''parenb'' s0 = Inr (Some s1)"
    and "parseoperand_mode ''-parenb'' s1 = Inr (Some s2)"
    and "bitsp CTRL (mode s2) = bitsp CTRL (mode s0)
           \<longleftrightarrow> (\<exists>bits. bitsp CTRL (mode s0) = Some bits \<and> bits AND PARENB = 0)"
    by auto
  with h5 have "\<exists>s1 s2. parseoperand_mode ''parenb'' s0 = Inr (Some s1)
          \<and> parseoperand_mode ''-parenb'' s1 = Inr (Some s2)
          \<and> c_cflag (mode s2) = c_cflag (mode s0)"
    by (auto simp: bitsp_def)
  with h1 h2 show ?thesis by simp
qed

text \<open>
  The claim as it is written fails where a bit of \<open>x\<close> is set before \<open>x\<close>: on the
  cooked terminal, where \<open>ECHO\<close> is set, \<open>echo\<close> changes nothing and \<open>-echo\<close> then
  removes \<open>ECHO\<close>. It fails for combinations too: after \<open>raw\<close> and \<open>-raw\<close> the input
  flag group holds the five default bits, not the two it held before.
\<close>

lemma operands_echo:
  "operands env0 [''echo'', ''-echo''] s0 = Inr (s0\<lparr>mode := t0\<lparr>c_lflag := c_lflag t0 AND NOT ECHO\<rparr>\<rparr>)"
  by (simp add: operand_def parseoperand_mode_def modes_def setoperand_mode_def Let_def
        s0_def t0_def termbits)

lemma operands_raw:
  "operands env0 [''raw'', ''-raw''] s0 =
     Inr (s0\<lparr>mode := t0\<lparr>c_iflag := BRKINT OR IGNPAR OR ISTRIP OR ICRNL OR IXON,
                        c_cc := (c_cc t0)(VMIN := 1, VTIME := 0)\<rparr>\<rparr>)"
  by (simp add: operand_def parseoperand_mode_raw parseoperand_mode_unraw s0_def t0_def)
     (simp add: termbits)

theorem negation_symmetry_counterexample:
  "map_sum fst (c_lflag \<circ> mode) (operands env0 [''echo'', ''-echo''] s0)
     = Inr (c_lflag (mode s0) AND NOT ECHO)
   \<and> c_lflag (mode s0) AND NOT ECHO \<noteq> c_lflag (mode s0)
   \<and> map_sum fst (c_iflag \<circ> mode) (operands env0 [''raw'', ''-raw''] s0)
     = Inr (BRKINT OR IGNPAR OR ISTRIP OR ICRNL OR IXON)
   \<and> BRKINT OR IGNPAR OR ISTRIP OR ICRNL OR IXON \<noteq> c_iflag (mode s0)"
  by (simp only: operands_echo operands_raw) (simp add: s0_def t0_def termbits)

section \<open>Baud rate names\<close>

lemma baudtostr_loop_filter:
  "baudtostr_loop sps baud =
     (case filter (\<lambda>sp. sp_speed sp = baud) sps of [] \<Rightarrow> ''0'' | sp # _ \<Rightarrow> sp_str sp)"
  by (induction sps) simp_all

text \<open>
  C5, as amended. \<^verbatim>\<open>baudtostr\<close> gives the name of the first entry of the speed
  catalog, in table order, that has the given value (and \<open>0\<close> when there is none): for
  the three values that have two names it gives the numeric one, \<open>134\<close>, \<open>19200\<close>
  and \<open>38400\<close>.
\<close>

theorem baudtostr_first_listed:
  "baudtostr baud =
     (case filter (\<lambda>sp. sp_speed sp = baud) speeds of [] \<Rightarrow> ''0'' | sp # _ \<Rightarrow> sp_str sp)
   \<and> baudtostr B134 = ''134''
   \<and> baudtostr B19200 = ''19200''
   \<and> baudtostr B38400 = ''38400''"
  by (simp add: baudtostr_def baudtostr_loop_filter) (simp add: speeds_def termbits)

theorem baudtostr_first_listed_witness:
  "baudtostr B9600 = ''9600'' \<and> baudtostr 0x2000 = ''0''"
  using baudtostr_first_listed [of B9600] baudtostr_first_listed [of "0x2000"]
  by (simp add: speeds_def termbits)

text \<open>
  The claim as it is written fails: of the two entries for \<open>B134\<close>, at positions 4
  and 31 of the catalog, \<^verbatim>\<open>baudtostr\<close> gives the name of the first, not of the last;
  likewise for \<open>B19200\<close> and \<open>B38400\<close>.
\<close>

theorem baudtostr_last_listed_counterexample:
  "speeds ! 4 = Speed ''134'' B134
   \<and> speeds ! 31 = Speed ''134.5'' B134
   \<and> baudtostr B134 \<noteq> ''134.5''
   \<and> baudtostr B19200 \<noteq> ''exta''
   \<and> baudtostr B38400 \<noteq> ''extb''"
  by (simp add: baudtostr_def speeds_def termbits)

section \<open>State codec\<close>

lemma nibble_cases: "n < 16 \<Longrightarrow> n \<in> {0,1,2,3,4,5,6,7,8,9,10,11,12,13,14,15}" for n :: nat
  by (auto simp: eval_nat_numeral less_Suc_eq)

lemma hexval_hexdigit: "n < 16 \<Longrightarrow> hexval (hexdigit n) = of_nat n"
  by (drule nibble_cases) (auto simp: hexval_def hexdigit_def isdigit_def between_def)

lemma isxdigit_hexdigit: "n < 16 \<Longrightarrow> isxdigit (hexdigit n)"
  by (drule nibble_cases) (auto simp: isxdigit_def hexdigit_def isdigit_def between_def)

lemma nibbles: "push_bit 4 (of_nat (unat b div 16)) OR of_nat (unat b mod 16) = b" for b :: "8 word"
proof -
  have a: "(of_nat (unat b div 16) :: 8 word) = drop_bit 4 b"
    by (simp add: drop_bit_eq_div unat_div word_arith_nat_div of_nat_div)
  have c: "(of_nat (unat b mod 16) :: 8 word) = take_bit 4 b"
    by (simp add: take_bit_eq_mod word_arith_nat_mod)
  show ?thesis unfolding a c
    by (rule bit_eqI) (auto simp: bit_simps)
qed

lemma decode_hex02: "decodehex (hex02 b @ src) = map_option ((#) b) (decodehex src)"
proof -
  have "unat b < 2 ^ 8" by (rule order_less_le_trans [OF unsigned_less]) simp
  then have "unat b div 16 < 16" by simp
  moreover have "unat b mod 16 < 16" by simp
  ultimately show ?thesis
    by (simp add: hex02_def hexval_hexdigit nibbles)
qed

lemma decodehex_encodehex: "decodehex (encodehex buf) = Some buf"
  by (induction buf) (simp_all add: encodehex_def decode_hex02)

lemma length_encodehex: "length (encodehex buf) = 2 * length buf"
  by (induction buf) (simp_all add: encodehex_def hex02_def)

lemma isxnumber_encodehex: "buf \<noteq> [] \<Longrightarrow> isxnumber (encodehex buf)"
proof -
  have "list_all isxdigit (encodehex buf)"
  proof (induction buf)
    case Nil show ?case by (simp add: encodehex_def)
  next
    case (Cons b buf)
    have "unat b < 2 ^ 8" by (rule order_less_le_trans [OF unsigned_less]) simp
  then have "unat b div 16 < 16" by simp
    moreover have "unat b mod 16 < 16" by simp
    ultimately show ?case using Cons
      by (simp add: encodehex_def hex02_def isxdigit_hexdigit)
  qed
  moreover assume "buf \<noteq> []"
  then have "encodehex buf \<noteq> []" by (cases buf) (simp_all add: encodehex_def hex02_def)
  ultimately show ?thesis by (simp add: isxnumber_def)
qed

lemma length_termios_bytes: "length (termios_bytes m) = sizeof_termios"
  by (simp add: termios_bytes_def bytes32_def NCCS_def sizeof_termios_def split: prod.split)

lemma le32_bytes32: "le32 (bytes32 w) = w"
  unfolding le32_def bytes32_def
  apply (rule bit_eqI)
  apply (auto simp: bit_simps)
  subgoal for n by (cases "24 \<le> n") simp_all
  done

lemma length_bytes32 [simp]: "length (bytes32 w) = 4"
  by (simp add: bytes32_def)

lemma bytes_termios_bytes:
  "bytes_termios (termios_bytes m) = m\<lparr>c_cc := (\<lambda>i. if i < NCCS then c_cc m i else 0)\<rparr>"
proof (cases m)
  case (fields i o' c l ln cc pad isp osp)
  obtain p0 p1 p2 where pad: "pad = (p0, p1, p2)" by (cases pad)
  show ?thesis
    unfolding fields pad
    by (simp add: bytes_termios_def termios_bytes_def le32_bytes32 NCCS_def nth_append
          cong: if_cong)
qed

lemma termios_bytes_cc: "termios_bytes (m\<lparr>c_cc := (\<lambda>i. if i < NCCS then c_cc m i else 0)\<rparr>) = termios_bytes m"
  by (simp add: termios_bytes_def)

text \<open>
  C4. Decoding the hexadecimal text that the encoding loop prints for a sequence of
  bytes gives back that sequence. For the object representation of any terminal state
  \<open>m\<close> that text has 120 characters, the operand \<open>=\<close> followed by it is accepted, and
  the working copy it leaves has the same sixty bytes as \<open>m\<close>.
\<close>

theorem state_codec_round_trip:
  "decodehex (encodehex buf) = Some buf
   \<and> length (encodehex (termios_bytes m)) = 120
   \<and> operand env (CHR ''='' # encodehex (termios_bytes m)) arg1 s
       = Inr (False, s\<lparr>mode := bytes_termios (termios_bytes m)\<rparr>)
   \<and> termios_bytes (bytes_termios (termios_bytes m)) = termios_bytes m"
proof -
  have "termios_bytes m \<noteq> []"
    using length_termios_bytes [of m] by (auto simp: sizeof_termios_def)
  then have "isxnumber (encodehex (termios_bytes m))"
    by (rule isxnumber_encodehex)
  then have "operand env (CHR ''='' # encodehex (termios_bytes m)) arg1 s
       = Inr (False, s\<lparr>mode := bytes_termios (termios_bytes m)\<rparr>)"
    by (simp add: operand_def length_encodehex length_termios_bytes decodehex_encodehex)
  then show ?thesis
    by (simp add: decodehex_encodehex bytes_termios_bytes termios_bytes_cc length_encodehex
          length_termios_bytes sizeof_termios_def)
qed

theorem state_codec_round_trip_witness:
  "encodehex [0x00, 0x7f, 0xa5] = ''007fa5''
   \<and> decodehex ''007fa5'' = Some [0x00, 0x7f, 0xa5]
   \<and> termios_bytes (bytes_termios (termios_bytes t0)) = termios_bytes t0"
proof -
  have "encodehex [0x00, 0x7f, 0xa5] = ''007fa5''"
    by (simp add: encodehex_def hex02_def hexdigit_def)
  with state_codec_round_trip [where buf = "[0x00, 0x7f, 0xa5]" and m = t0 and env = env0
      and ?arg1.0 = None and s = s0]
  show ?thesis by simp
qed

section \<open>Key operands\<close>

lemma keys_distinct: "distinct (map k_op keys)"
  by (simp add: keys_def)

lemma find_key: "op \<in> set keys \<Longrightarrow> find (\<lambda>e. k_op e = k_op op) keys = Some op"
  by (rule find_by_name [OF keys_distinct])

lemma parseoperand_mode_no_match: "\<not> is_mode tok \<Longrightarrow> parseoperand_mode tok s = Inr None"
proof -
  assume nm: "\<not> is_mode tok"
  show ?thesis
  proof (cases "tok \<noteq> [] \<and> hd tok = CHR ''-''")
    case True
    show ?thesis
    proof (cases "find (\<lambda>op. m_op op = tl tok) modes")
      case None
      with True show ?thesis by (simp add: parseoperand_mode_def)
    next
      case (Some op)
      from find_Some_name [OF Some] have "op \<in> set modes" "m_op op = tl tok" by simp_all
      have "m_flags op AND BOOL = 0"
      proof (rule ccontr)
        assume "m_flags op AND BOOL \<noteq> 0"
        with \<open>op \<in> set modes\<close> have "op \<in> {op \<in> set modes. m_flags op AND BOOL \<noteq> 0}"
          by simp
        then have "m_op op \<in> m_op ` {op \<in> set modes. m_flags op AND BOOL \<noteq> 0}"
          by (rule imageI)
        with nm True \<open>m_op op = tl tok\<close> show False by (simp add: is_mode_def)
      qed
      with True Some show ?thesis by (simp add: parseoperand_mode_def)
    qed
  next
    case False
    with nm have "find (\<lambda>op. m_op op = tok) modes = None"
      by (auto simp: is_mode_def find_None_iff_name)
    with False show ?thesis by (auto simp: parseoperand_mode_def)
  qed
qed

lemma mode_names:
  "map m_op modes =
    [''clocal'', ''cmspar'', ''cread'', ''crtscts'', ''cs5'', ''cs6'', ''cs7'', ''cs8'',
     ''cstopb'', ''hup'', ''hupcl'', ''parenb'', ''parodd'', ''brkint'', ''icrnl'', ''ignbrk'',
     ''igncr'', ''ignpar'', ''imaxbel'', ''inlcr'', ''inpck'', ''istrip'', ''iuclc'', ''iutf8'',
     ''ixany'', ''ixoff'', ''ixon'', ''parmrk'', ''tandem'', ''bs0'', ''bs1'', ''cr0'', ''cr1'',
     ''cr2'', ''cr3'', ''ff0'', ''ff1'', ''nl0'', ''nl1'', ''ocrnl'', ''ofdel'', ''ofill'',
     ''olcuc'', ''onlcr'', ''onlret'', ''onocr'', ''opost'', ''tab0'', ''tab1'', ''tab2'',
     ''tab3'', ''vt0'', ''vt1'', ''crterase'', ''crtkill'', ''ctlecho'', ''echo'', ''echoctl'',
     ''echoe'', ''echok'', ''echoke'', ''echonl'', ''echoprt'', ''extproc'', ''flusho'',
     ''icanon'', ''iexten'', ''isig'', ''noflsh'', ''prterase'', ''tostop'', ''xcase'',
     ''cbreak'', ''cooked'', ''crt'', ''dec'', ''decctlq'', ''ek'', ''evenp'', ''LCASE'',
     ''lcase'', ''litout'', ''nl'', ''oddp'', ''parity'', ''pass8'', ''raw'', ''sane'', ''tabs'',
     ''size'', ''speed'', ''drain'']"
  by (simp add: modes_def)

lemma key_names:
  "map k_op keys =
    [''discard'', ''eof'', ''eol'', ''eol2'', ''erase'', ''intr'', ''kill'', ''lnext'', ''quit'',
     ''rprnt'', ''start'', ''stop'', ''susp'', ''swtch'', ''werase'']"
  by (simp add: keys_def)

lemma is_mode_names:
  "is_mode tok \<Longrightarrow> tok \<in> set (map m_op modes) \<or> (tok \<noteq> [] \<and> hd tok = CHR ''-'')"
  by (auto simp: is_mode_def split: if_splits)

lemma key_names_no_mode:
  "\<forall>n\<in>set (map k_op keys). n \<notin> set (map m_op modes) \<and> n \<noteq> [] \<and> hd n \<noteq> CHR ''-'' \<and> hd n \<noteq> CHR ''=''"
  unfolding mode_names key_names by simp

lemma keys_not_modes: "\<forall>op\<in>set keys. \<not> is_mode (k_op op) \<and> \<not> is_literal (k_op op)"
  using key_names_no_mode is_mode_names by (fastforce simp: is_literal_def)

text \<open>
  C10. For every key operand of the catalog, an empty value token is accepted:
  \<^verbatim>\<open>parseoperand_key\<close> returns 0 and has stored the byte 0 in the control character
  the operand addresses, and the pass of the operand loop of \<^verbatim>\<open>main\<close> on the two
  tokens does the same and consumes both.
\<close>

theorem key_empty_value_is_nul:
  assumes "op \<in> set keys"
  shows "parseoperand_key env (k_op op) (Some []) s
           = Inr (Some (s\<lparr>mode := (mode s)\<lparr>c_cc := (c_cc (mode s))(k_index op := 0)\<rparr>\<rparr>))
         \<and> operand env (k_op op) (Some []) s
           = Inr (True, s\<lparr>mode := (mode s)\<lparr>c_cc := (c_cc (mode s))(k_index op := 0)\<rparr>\<rparr>)"
proof -
  have k: "parseoperand_key env (k_op op) (Some []) s
           = Inr (Some (s\<lparr>mode := (mode s)\<lparr>c_cc := (c_cc (mode s))(k_index op := 0)\<rparr>\<rparr>))"
    by (simp add: parseoperand_key_def find_key [OF assms])
  from assms keys_not_modes have "\<not> is_mode (k_op op)" "\<not> is_literal (k_op op)" by auto
  then have "operand env (k_op op) (Some []) s
           = Inr (True, s\<lparr>mode := (mode s)\<lparr>c_cc := (c_cc (mode s))(k_index op := 0)\<rparr>\<rparr>)"
    by (auto simp: operand_def is_literal_def parseoperand_mode_no_match k)
  with k show ?thesis by simp
qed

theorem key_empty_value_is_nul_witness:
  "Key ''erase'' VERASE CERASE \<in> set keys
   \<and> c_cc (mode s0) VERASE = 127
   \<and> operand env0 ''erase'' (Some []) s0
       = Inr (True, s0\<lparr>mode := (mode s0)\<lparr>c_cc := (c_cc (mode s0))(VERASE := 0)\<rparr>\<rparr>)"
proof -
  have h: "Key ''erase'' VERASE CERASE \<in> set keys" by (simp add: keys_def)
  have "c_cc (mode s0) VERASE = 127" by (simp add: s0_def t0_def termbits)
  with h key_empty_value_is_nul [OF h, of env0 s0] show ?thesis by simp
qed

section \<open>The mode section of the display\<close>

lemma tok_in_modetokens:
  "t \<in> set (modetokens m all) \<longleftrightarrow> (\<exists>e\<in>set modes. t \<in> set (modetoken m all e))"
  by (auto simp: modetokens_def)

lemma modetoken_names:
  "Tok x \<in> set (modetoken m all e) \<Longrightarrow> x = m_op e \<or> x = CHR ''-'' # m_op e"
  by (auto simp: modetoken_def Let_def split: option.splits if_splits)

lemma mode_name_inj: "e \<in> set modes \<Longrightarrow> op \<in> set modes \<Longrightarrow> m_op e = m_op op \<Longrightarrow> e = op"
  using modes_distinct by (meson distinct_map inj_onD)

lemma plain_in_modetokens:
  assumes "op \<in> set modes"
  shows "Tok (m_op op) \<in> set (modetokens m all) \<longleftrightarrow> Tok (m_op op) \<in> set (modetoken m all op)"
proof
  assume "Tok (m_op op) \<in> set (modetokens m all)"
  then obtain e where e: "e \<in> set modes" "Tok (m_op op) \<in> set (modetoken m all e)"
    by (auto simp: tok_in_modetokens)
  from modetoken_names [OF e(2)] have "m_op op = m_op e \<or> m_op op = CHR ''-'' # m_op e" .
  moreover from assms modes_first_char have "hd (m_op op) \<noteq> CHR ''-''" by auto
  ultimately have "m_op e = m_op op" by auto
  with e(1) assms have "e = op" by (rule mode_name_inj)
  with e(2) show "Tok (m_op op) \<in> set (modetoken m all op)" by simp
next
  assume "Tok (m_op op) \<in> set (modetoken m all op)"
  with assms show "Tok (m_op op) \<in> set (modetokens m all)" by (auto simp: tok_in_modetokens)
qed

lemma dashed_in_modetokens:
  assumes "op \<in> set modes"
  shows "Tok (CHR ''-'' # m_op op) \<in> set (modetokens m all)
           \<longleftrightarrow> Tok (CHR ''-'' # m_op op) \<in> set (modetoken m all op)"
proof
  assume "Tok (CHR ''-'' # m_op op) \<in> set (modetokens m all)"
  then obtain e where e: "e \<in> set modes" "Tok (CHR ''-'' # m_op op) \<in> set (modetoken m all e)"
    by (auto simp: tok_in_modetokens)
  from modetoken_names [OF e(2)]
  have "CHR ''-'' # m_op op = m_op e \<or> CHR ''-'' # m_op op = CHR ''-'' # m_op e" .
  moreover from e(1) modes_first_char have "hd (m_op e) \<noteq> CHR ''-''" by auto
  ultimately have "m_op e = m_op op" by (metis list.inject list.sel(1))
  with e(1) assms have "e = op" by (rule mode_name_inj)
  with e(2) show "Tok (CHR ''-'' # m_op op) \<in> set (modetoken m all op)" by simp
next
  assume "Tok (CHR ''-'' # m_op op) \<in> set (modetoken m all op)"
  with assms show "Tok (CHR ''-'' # m_op op) \<in> set (modetokens m all)"
    by (auto simp: tok_in_modetokens)
qed

lemma modetoken_cases:
  "modetoken m all e = [] \<or> modetoken m all e = [Tok (m_op e)]
   \<or> modetoken m all e = [Tok (CHR ''-'' # m_op e)]"
  by (auto simp: modetoken_def Let_def split: option.splits)

lemma modetokens_list_distinct:
  assumes "distinct (map m_op xs)" and "\<forall>e\<in>set xs. m_op e \<noteq> [] \<and> hd (m_op e) \<noteq> CHR ''-''"
  shows "distinct (concat (map (modetoken m all) xs))"
  using assms
proof (induction xs)
  case Nil
  show ?case by simp
next
  case (Cons x xs)
  then have ih: "distinct (concat (map (modetoken m all) xs))" by simp
  have d: "distinct (modetoken m all x)"
    using modetoken_cases [of m all x] by auto
  have "set (modetoken m all x) \<inter> set (concat (map (modetoken m all) xs)) = {}"
  proof (rule ccontr)
    assume "set (modetoken m all x) \<inter> set (concat (map (modetoken m all) xs)) \<noteq> {}"
    then obtain t e where t: "t \<in> set (modetoken m all x)" and e: "e \<in> set xs"
      and t': "t \<in> set (modetoken m all e)" by auto
    from t modetoken_cases [of m all x]
    have tx: "t = Tok (m_op x) \<or> t = Tok (CHR ''-'' # m_op x)" by auto
    from t' modetoken_cases [of m all e]
    have te: "t = Tok (m_op e) \<or> t = Tok (CHR ''-'' # m_op e)" by auto
    from Cons.prems have "m_op x \<notin> m_op ` set xs" by simp
    with e have ne: "m_op e \<noteq> m_op x" by (metis imageI)
    from Cons.prems e have hx: "m_op x \<noteq> [] \<and> hd (m_op x) \<noteq> CHR ''-''"
      and he: "m_op e \<noteq> [] \<and> hd (m_op e) \<noteq> CHR ''-''" by auto
    from tx te have "m_op x = m_op e \<or> m_op x = CHR ''-'' # m_op e \<or> m_op e = CHR ''-'' # m_op x"
      by auto
    with ne hx he show False by (metis list.sel(1))
  qed
  with ih d show ?case by simp
qed

lemma modetokens_distinct: "distinct (modetokens m all)"
  unfolding modetokens_def
  using modes_distinct modes_first_char by (intro modetokens_list_distinct) auto

text \<open>
  C6, as amended. In the dump of all settings every entry of the key catalog is shown
  with the current value of its control character, and the mode section renders the
  current value of every entry of the mode catalog that addresses a flag group and is
  not tagged \<open>DUP\<close>: the name of the entry is shown exactly when the bits of its mask
  currently hold its value, and the name after a hyphen is shown exactly when they do
  not and the entry is tagged \<open>BOOL\<close>. An entry tagged \<open>DUP\<close>, a combination and a
  special entry are never shown, with or without a hyphen. No token occurs twice in the
  mode section.
\<close>

theorem all_mode_dump_entries:
  "(\<forall>op\<in>set modes.
      m_type op \<noteq> COMB \<and> m_type op \<noteq> SPEC \<and> m_flags op AND DUP = 0
      \<longrightarrow> (Tok (m_op op) \<in> set (modetokens m True)
             \<longleftrightarrow> (\<exists>bits. bitsp (m_type op) m = Some bits
                    \<and> bits AND (if m_clear op \<noteq> 0 then m_clear op else m_set op) = m_set op))
          \<and> (Tok (CHR ''-'' # m_op op) \<in> set (modetokens m True)
             \<longleftrightarrow> m_flags op AND BOOL \<noteq> 0
                 \<and> (\<exists>bits. bitsp (m_type op) m = Some bits
                    \<and> bits AND (if m_clear op \<noteq> 0 then m_clear op else m_set op) \<noteq> m_set op)))
   \<and> (\<forall>op\<in>set modes.
      m_type op = COMB \<or> m_type op = SPEC \<or> m_flags op AND DUP \<noteq> 0
      \<longrightarrow> Tok (m_op op) \<notin> set (modetokens m True)
          \<and> Tok (CHR ''-'' # m_op op) \<notin> set (modetokens m True))
   \<and> distinct (modetokens m True)
   \<and> (\<forall>kbd\<in>set keys.
        Tok (k_op kbd @ '' = '' @ keytostr (c_cc m (k_index kbd)) @ '';'')
          \<in> set (keytokens m True))"
proof (intro conjI ballI impI)
  fix op
  assume "op \<in> set modes"
    and "m_type op \<noteq> COMB \<and> m_type op \<noteq> SPEC \<and> m_flags op AND DUP = 0"
  then show "Tok (m_op op) \<in> set (modetokens m True)
               \<longleftrightarrow> (\<exists>bits. bitsp (m_type op) m = Some bits
                      \<and> bits AND (if m_clear op \<noteq> 0 then m_clear op else m_set op) = m_set op)"
    by (cases "m_type op")
       (auto simp: plain_in_modetokens modetoken_def bitsp_def Let_def)
next
  fix op
  assume "op \<in> set modes"
    and "m_type op \<noteq> COMB \<and> m_type op \<noteq> SPEC \<and> m_flags op AND DUP = 0"
  then show "Tok (CHR ''-'' # m_op op) \<in> set (modetokens m True)
             \<longleftrightarrow> m_flags op AND BOOL \<noteq> 0
                 \<and> (\<exists>bits. bitsp (m_type op) m = Some bits
                    \<and> bits AND (if m_clear op \<noteq> 0 then m_clear op else m_set op) \<noteq> m_set op)"
    by (cases "m_type op")
       (auto simp: dashed_in_modetokens modetoken_def bitsp_def Let_def)
next
  fix op
  assume "op \<in> set modes" and "m_type op = COMB \<or> m_type op = SPEC \<or> m_flags op AND DUP \<noteq> 0"
  then show "Tok (m_op op) \<notin> set (modetokens m True)"
    by (cases "m_type op")
       (auto simp: plain_in_modetokens modetoken_def bitsp_def Let_def)
next
  fix op
  assume "op \<in> set modes" and "m_type op = COMB \<or> m_type op = SPEC \<or> m_flags op AND DUP \<noteq> 0"
  then show "Tok (CHR ''-'' # m_op op) \<notin> set (modetokens m True)"
    by (cases "m_type op")
       (auto simp: dashed_in_modetokens modetoken_def bitsp_def Let_def)
next
  show "distinct (modetokens m True)" by (rule modetokens_distinct)
next
  fix kbd
  assume "kbd \<in> set keys"
  then show "Tok (k_op kbd @ '' = '' @ keytostr (c_cc m (k_index kbd)) @ '';'')
          \<in> set (keytokens m True)"
    by (auto simp: keytokens_def)
qed

lemma modetokens_t0:
  "modetokens t0 True =
     map Tok [''-clocal'', ''-cmspar'', ''cread'', ''-crtscts'', ''cs8'', ''-cstopb'', ''-hupcl'',
       ''-parenb'', ''-parodd'', ''-brkint'', ''icrnl'', ''-ignbrk'', ''-igncr'', ''-ignpar'',
       ''-imaxbel'', ''-inlcr'', ''-inpck'', ''-istrip'', ''-iuclc'', ''-iutf8'', ''-ixany'',
       ''-ixoff'', ''ixon'', ''-parmrk'', ''bs0'', ''cr0'', ''ff0'', ''nl0'', ''-ocrnl'', ''-ofdel'',
       ''-ofill'', ''-olcuc'', ''onlcr'', ''-onlret'', ''-onocr'', ''opost'', ''tab0'', ''vt0'',
       ''echo'', ''-echoctl'', ''echoe'', ''echok'', ''-echoke'', ''-echonl'', ''-echoprt'',
       ''-extproc'', ''-flusho'', ''icanon'', ''iexten'', ''isig'', ''-noflsh'', ''-tostop'',
       ''-xcase'']"
  by (simp add: modetokens_def modetoken_def modes_def bitsp_def t0_def termbits Let_def)

theorem all_mode_dump_entries_witness:
  "Mode ''parodd'' CTRL PARODD 0 None BOOL \<in> set modes
   \<and> c_cflag t0 AND PARODD = 0
   \<and> Tok ''parodd'' \<notin> set (modetokens t0 True)
   \<and> Tok ''-parodd'' \<in> set (modetokens t0 True)
   \<and> Mode ''cread'' CTRL CREAD 0 None (BOOL OR SANE) \<in> set modes
   \<and> c_cflag t0 AND CREAD = CREAD
   \<and> Tok ''cread'' \<in> set (modetokens t0 True)
   \<and> Tok ''-cread'' \<notin> set (modetokens t0 True)
   \<and> Mode ''cs7'' CTRL CS7 CSIZE None 0 \<in> set modes
   \<and> Tok ''cs7'' \<notin> set (modetokens t0 True)
   \<and> Mode ''cs8'' CTRL CS8 CSIZE None DEF \<in> set modes
   \<and> Tok ''cs8'' \<in> set (modetokens t0 True)
   \<and> Mode ''tandem'' IN IXOFF 0 None (BOOL OR DUP) \<in> set modes
   \<and> Tok ''tandem'' \<notin> set (modetokens t0 True)
   \<and> Tok ''-tandem'' \<notin> set (modetokens t0 True)
   \<and> Key ''erase'' VERASE CERASE \<in> set keys
   \<and> Tok (''erase = '' @ keytostr (c_cc t0 VERASE) @ '';'') \<in> set (keytokens t0 True)"
proof -
  note T = all_mode_dump_entries [of t0]
  have h1: "Mode ''parodd'' CTRL PARODD 0 None BOOL \<in> set modes"
    and h2: "Mode ''cs7'' CTRL CS7 CSIZE None 0 \<in> set modes"
    and h3: "Mode ''tandem'' IN IXOFF 0 None (BOOL OR DUP) \<in> set modes"
    and h4: "Mode ''cread'' CTRL CREAD 0 None (BOOL OR SANE) \<in> set modes"
    and h5: "Mode ''cs8'' CTRL CS8 CSIZE None DEF \<in> set modes"
    by (simp_all add: modes_def)
  have h6: "Key ''erase'' VERASE CERASE \<in> set keys" by (simp add: keys_def)
  have b: "c_cflag t0 AND PARODD = 0" "c_cflag t0 AND CREAD = CREAD"
    by (simp_all add: t0_def termbits)
  from T [THEN conjunct1, THEN bspec, OF h1]
  have "Tok ''parodd'' \<notin> set (modetokens t0 True) \<and> Tok ''-parodd'' \<in> set (modetokens t0 True)"
    by (simp add: bitsp_def t0_def termbits)
  moreover from T [THEN conjunct1, THEN bspec, OF h4]
  have "Tok ''cread'' \<in> set (modetokens t0 True) \<and> Tok ''-cread'' \<notin> set (modetokens t0 True)"
    by (simp add: bitsp_def t0_def termbits)
  moreover from T [THEN conjunct1, THEN bspec, OF h2]
  have "Tok ''cs7'' \<notin> set (modetokens t0 True)"
    by (simp add: bitsp_def t0_def termbits)
  moreover from T [THEN conjunct1, THEN bspec, OF h5]
  have "Tok ''cs8'' \<in> set (modetokens t0 True)"
    by (simp add: bitsp_def t0_def termbits)
  moreover from T [THEN conjunct2, THEN conjunct1, THEN bspec, OF h3]
  have "Tok ''tandem'' \<notin> set (modetokens t0 True) \<and> Tok ''-tandem'' \<notin> set (modetokens t0 True)"
    by (simp add: termbits)
  moreover from T [THEN conjunct2, THEN conjunct2, THEN conjunct2, THEN bspec, OF h6]
  have "Tok (''erase = '' @ keytostr (c_cc t0 VERASE) @ '';'') \<in> set (keytokens t0 True)"
    by simp
  ultimately show ?thesis using h1 h2 h3 h4 h5 h6 b by simp
qed

text \<open>
  The claim as it is written fails: \<open>hup\<close> is an entry of the catalog, and the dump of
  all settings of the cooked terminal shows it neither set nor unset; the same holds
  for the combination \<open>raw\<close>, and the character size \<open>cs5\<close>, which is not the current
  one, is not shown either.
\<close>

theorem all_mode_dump_counterexample:
  "Mode ''hup'' CTRL HUPCL 0 None (BOOL OR DUP) \<in> set modes
   \<and> Tok ''hup'' \<notin> set (modetokens t0 True)
   \<and> Tok ''-hup'' \<notin> set (modetokens t0 True)
   \<and> Mode ''raw'' COMB 0 COOKED (Some F_raw) (BOOL OR DUP) \<in> set modes
   \<and> Tok ''raw'' \<notin> set (modetokens t0 True)
   \<and> Tok ''-raw'' \<notin> set (modetokens t0 True)
   \<and> Mode ''cs5'' CTRL CS5 CSIZE None 0 \<in> set modes
   \<and> Tok ''cs5'' \<notin> set (modetokens t0 True)"
  by (simp add: modetokens_t0) (simp add: modes_def)

section \<open>The operand loop\<close>

text \<open>
  No operand touches the attributes of the terminal or standard output: the operand loop
  works on the copy \<^verbatim>\<open>mode\<close>, on the request variables and on the window size.
\<close>

lemma callfun_dev: "tty (callfun f u s) = tty s \<and> out (callfun f u s) = out s"
  by (cases f) (simp_all add: drain_def size'_def speed_def)

lemma setoperand_mode_dev:
  "setoperand_mode u op s = Inr s' \<Longrightarrow> tty s' = tty s \<and> out s' = out s"
  by (auto simp: setoperand_mode_def Let_def callfun_dev split: type.splits option.splits)

lemma propagate_dev:
  "propagate u fs fu ops s = Inr s' \<Longrightarrow> tty s' = tty s \<and> out s' = out s"
proof (induction ops arbitrary: s)
  case Nil
  then show ?case by simp
next
  case (Cons op ops)
  show ?case
  proof (cases "m_type op = COMB")
    case True
    with Cons show ?thesis by simp
  next
    case False
    let ?r1 = "if fu \<noteq> 0 \<and> m_flags op AND fu \<noteq> 0 then setoperand_mode (\<not> u) op s else Inr s"
    from Cons.prems False obtain s1 where s1: "?r1 = Inr s1"
      by (cases ?r1) (simp_all del: propagate.simps add: propagate.simps(2))
    let ?r2 = "if fs \<noteq> 0 \<and> m_flags op AND fs \<noteq> 0 then setoperand_mode u op s1 else Inr s1"
    from Cons.prems False s1 obtain s2 where s2: "?r2 = Inr s2"
      by (cases ?r2) simp_all
    from Cons.prems False s1 s2 have "propagate u fs fu ops s2 = Inr s'" by simp
    from Cons.IH [OF this] have a: "tty s' = tty s2 \<and> out s' = out s2" .
    from s1 have b: "tty s1 = tty s \<and> out s1 = out s"
      by (auto dest: setoperand_mode_dev split: if_splits)
    from s2 have c: "tty s2 = tty s1 \<and> out s2 = out s1"
      by (auto dest: setoperand_mode_dev split: if_splits)
    from a b c show ?thesis by simp
  qed
qed

lemma parseoperand_mode_dev:
  "parseoperand_mode a s = Inr (Some s') \<Longrightarrow> tty s' = tty s \<and> out s' = out s"
  unfolding parseoperand_mode_def Let_def
  by (auto simp: andthen_def callfun_dev
           dest!: setoperand_mode_dev propagate_dev
           split: option.splits if_splits sum.splits)

lemma parseoperand_key_dev:
  "parseoperand_key env a a1 s = Inr (Some s') \<Longrightarrow> tty s' = tty s \<and> out s' = out s"
  unfolding parseoperand_key_def
  by (auto simp: andthen_def eprintf_def split: option.splits if_splits sum.splits)

lemma setwinsize_dev:
  "setwinsize env y x s = Inr s' \<Longrightarrow> tty s' = tty s \<and> out s' = out s"
  by (auto simp: setwinsize_def Let_def eprintf_def split: if_splits)

lemma callint_dev:
  "callint f env a s = Inr s' \<Longrightarrow> tty s' = tty s \<and> out s' = out s"
  by (cases f)
     (auto simp: cols_def rows_def min'_def stime_def ispeed_def ospeed_def eparsespeed_def
           andthen_def eprintf_def
           dest!: setwinsize_dev split: sum.splits option.splits)

lemma parseoperand_int_dev:
  "parseoperand_int env a a1 s = Inr (Some s') \<Longrightarrow> tty s' = tty s \<and> out s' = out s"
  unfolding parseoperand_int_def
  by (auto simp: andthen_def eprintf_def dest!: callint_dev split: option.splits sum.splits)

lemma line_dev:
  "line env a s = Inr s' \<Longrightarrow> tty s' = tty s \<and> out s' = out s"
  by (auto simp: line_def eprintf_def split: option.splits sum.splits)

lemma operand_dev:
  assumes "operand env a a1 s = Inr (two, s')"
  shows "tty s' = tty s \<and> out s' = out s"
proof (cases "a \<noteq> [] \<and> hd a = CHR ''=''")
  case True
  with assms show ?thesis
    by (auto simp: operand_def Let_def invalid_def eprintf_def split: if_splits option.splits)
next
  case False
  show ?thesis
  proof (cases "parseoperand_mode a s")
    case (Inl e)
    with assms False show ?thesis by (auto simp: operand_def)
  next
    case (Inr r)
    show ?thesis
    proof (cases r)
      case (Some s1)
      with Inr assms False have "s' = s1" by (auto simp: operand_def)
      with Some Inr parseoperand_mode_dev show ?thesis by blast
    next
      case None
      note m = None Inr
      show ?thesis
      proof (cases "parseoperand_key env a a1 s")
        case (Inl e)
        with assms False m show ?thesis by (auto simp: operand_def)
      next
        case (Inr rk)
        show ?thesis
        proof (cases rk)
          case (Some s1)
          with Inr assms False m have "s' = s1" by (auto simp: operand_def)
          with Some Inr parseoperand_key_dev show ?thesis by blast
        next
          case None
          note k = None Inr
          show ?thesis
          proof (cases "parseoperand_int env a a1 s")
            case (Inl e)
            with assms False m k show ?thesis by (auto simp: operand_def)
          next
            case (Inr ri)
            show ?thesis
            proof (cases ri)
              case (Some s1)
              with Inr assms False m k have "s' = s1" by (auto simp: operand_def)
              with Some Inr parseoperand_int_dev show ?thesis by blast
            next
              case None
              with Inr assms False m k show ?thesis
                by (auto simp: operand_def invalid_def eprintf_def andthen_def
                         dest!: line_dev split: if_splits option.splits sum.splits)
            qed
          qed
        qed
      qed
    qed
  qed
qed

lemma operands_dev:
  "operands env argv s = Inr s' \<Longrightarrow> tty s' = tty s \<and> out s' = out s"
proof (induction env argv s rule: operands.induct)
  case (1 env s)
  then show ?case by simp
next
  case (2 env arg0 argv s)
  let ?a1 = "case argv of [] \<Rightarrow> None | arg1 # _ \<Rightarrow> Some arg1"
  from "2.prems" obtain two s1 where o: "operand env arg0 ?a1 s = Inr (two, s1)"
    by (cases "operand env arg0 ?a1 s") auto
  with "2.prems" have "operands env (if two then tl argv else argv) s1 = Inr s'" by simp
  from "2.IH" [OF o refl this] have "tty s' = tty s1 \<and> out s' = out s1" .
  with operand_dev [OF o] show ?case by simp
qed

lemma parseoperand_key_no_match: "\<not> is_key tok \<Longrightarrow> parseoperand_key env tok a1 s = Inr None"
  by (simp add: parseoperand_key_def is_key_def find_None_iff_name [symmetric])

lemma parseoperand_int_no_match: "\<not> is_int tok \<Longrightarrow> parseoperand_int env tok a1 s = Inr None"
  by (simp add: parseoperand_int_def is_int_def find_None_iff_name [symmetric])

lemma parsespeed_no_match: "\<not> is_speed tok \<Longrightarrow> parsespeed tok = None"
  by (simp add: parsespeed_def is_speed_def find_None_iff_name [symmetric])

lemma operand_no_class:
  assumes "no_operand_class tok"
  shows "operand env tok a1 s = invalid tok s"
proof -
  from assms have "\<not> (tok \<noteq> [] \<and> hd tok = CHR ''='')" and "tok \<noteq> ''line''"
    and "parseoperand_mode tok s = Inr None"
    and "parseoperand_key env tok a1 s = Inr None"
    and "parseoperand_int env tok a1 s = Inr None"
    and "parsespeed tok = None"
    by (simp_all add: no_operand_class_def is_literal_def is_line_def parseoperand_mode_no_match
          parseoperand_key_no_match parseoperand_int_no_match parsespeed_no_match)
  then show ?thesis
    by (auto simp: operand_def)
qed

text \<open>
  A pass that succeeds on the last token of the argument vector has not consumed a
  value, and does the same whatever token follows.
\<close>

lemma parseoperand_key_last:
  "parseoperand_key env a None s = Inr r \<Longrightarrow> r = None \<and> parseoperand_key env a a1 s = Inr None"
  by (auto simp: parseoperand_key_def eprintf_def split: option.splits)

lemma parseoperand_int_last:
  "parseoperand_int env a None s = Inr r \<Longrightarrow> r = None \<and> parseoperand_int env a a1 s = Inr None"
  by (auto simp: parseoperand_int_def eprintf_def split: option.splits)

lemma operand_last:
  assumes "operand env a None s = Inr (two, s')"
  shows "\<not> two \<and> operand env a a1 s = Inr (False, s')"
proof (cases "a \<noteq> [] \<and> hd a = CHR ''=''")
  case True
  with assms show ?thesis
    by (auto simp: operand_def Let_def invalid_def eprintf_def split: if_splits option.splits)
next
  case False
  show ?thesis
  proof (cases "parseoperand_mode a s")
    case (Inl e)
    with assms False show ?thesis by (auto simp: operand_def)
  next
    case (Inr r)
    show ?thesis
    proof (cases r)
      case (Some s1)
      with Inr assms False show ?thesis by (auto simp: operand_def)
    next
      case None
      note m = None Inr
      show ?thesis
      proof (cases "parseoperand_key env a None s")
        case (Inl e)
        with assms False m show ?thesis by (auto simp: operand_def)
      next
        case (Inr rk)
        from parseoperand_key_last [OF Inr]
        have k: "parseoperand_key env a None s = Inr None" "parseoperand_key env a a1 s = Inr None"
          using Inr by auto
        show ?thesis
        proof (cases "parseoperand_int env a None s")
          case (Inl e)
          with assms False m k show ?thesis by (auto simp: operand_def)
        next
          case (Inr ri)
          from parseoperand_int_last [OF Inr]
          have i: "parseoperand_int env a None s = Inr None"
            "parseoperand_int env a a1 s = Inr None"
            using Inr by auto
          from assms False m k i show ?thesis
            by (auto simp: operand_def invalid_def eprintf_def
                     split: if_splits option.splits)
        qed
      qed
    qed
  qed
qed

lemma operands_append:
  "operands env pre s = Inr s1 \<Longrightarrow> operands env (pre @ post) s = operands env post s1"
proof (induction env pre s rule: operands.induct)
  case (1 env s)
  then show ?case by simp
next
  case (2 env arg0 argv s)
  let ?a1 = "case argv of [] \<Rightarrow> None | arg1 # _ \<Rightarrow> Some arg1"
  let ?b1 = "case argv @ post of [] \<Rightarrow> None | arg1 # _ \<Rightarrow> Some arg1"
  from "2.prems" obtain two s2 where o: "operand env arg0 ?a1 s = Inr (two, s2)"
    by (cases "operand env arg0 ?a1 s") auto
  with "2.prems" have r: "operands env (if two then tl argv else argv) s2 = Inr s1" by simp
  from "2.IH" [OF o refl r]
  have ih: "operands env ((if two then tl argv else argv) @ post) s2 = operands env post s1" .
  show ?case
  proof (cases argv)
    case Nil
    with o have "operand env arg0 None s = Inr (two, s2)" by simp
    from operand_last [OF this, of ?b1] have nt: "\<not> two" and o': "operand env arg0 ?b1 s = Inr (False, s2)"
      by simp_all
    from ih nt Nil have "operands env post s2 = operands env post s1" by simp
    with o' Nil show ?thesis by simp
  next
    case (Cons b bs)
    then have "?b1 = ?a1" by simp
    with o have o': "operand env arg0 ?b1 s = Inr (two, s2)" by simp
    from Cons have "(if two then tl (argv @ post) else argv @ post)
                      = (if two then tl argv else argv) @ post" by simp
    with o' ih show ?thesis by simp
  qed
qed

section \<open>Runs of \<^verbatim>\<open>main\<close> that end in a diagnostic\<close>

lemma is_mode_plain:
  "tok \<noteq> [] \<Longrightarrow> hd tok \<noteq> CHR ''-'' \<Longrightarrow> is_mode tok \<longleftrightarrow> tok \<in> set (map m_op modes)"
  by (simp add: is_mode_def)

lemma no_operand_class_bogus: "no_operand_class ''bogus''"
proof -
  have "\<not> is_mode ''bogus''"
    by (simp add: is_mode_plain mode_names)
  moreover have "\<not> is_key ''bogus''"
    unfolding is_key_def set_map [symmetric] key_names by simp
  moreover have "\<not> is_int ''bogus''"
    by (simp add: is_int_def ints_def)
  moreover have "\<not> is_speed ''bogus''"
    by (simp add: is_speed_def speeds_def)
  ultimately show ?thesis
    by (simp add: no_operand_class_def is_literal_def is_line_def)
qed

lemma operands_unecho:
  "operands env0 [''-echo''] (s0\<lparr>mode := tty s0\<rparr>)
     = Inr (s0\<lparr>mode := t0\<lparr>c_lflag := c_lflag t0 AND NOT ECHO\<rparr>\<rparr>)"
  by (simp add: operand_def parseoperand_mode_def modes_def setoperand_mode_def Let_def
        s0_def t0_def termbits)

text \<open>
  The window size of the terminal is changed by the operands \<open>rows\<close>, \<open>cols\<close> and
  \<open>columns\<close> only; they change it within the operand loop.
\<close>

lemma callfun_ws: "tty_winsize (callfun f u s) = tty_winsize s"
  by (cases f) (simp_all add: drain_def size'_def speed_def)

lemma setoperand_mode_ws:
  "setoperand_mode u op s = Inr s' \<Longrightarrow> tty_winsize s' = tty_winsize s"
  by (auto simp: setoperand_mode_def Let_def callfun_ws split: type.splits option.splits)

lemma propagate_ws:
  "propagate u fs fu ops s = Inr s' \<Longrightarrow> tty_winsize s' = tty_winsize s"
proof (induction ops arbitrary: s)
  case Nil
  then show ?case by simp
next
  case (Cons op ops)
  show ?case
  proof (cases "m_type op = COMB")
    case True
    with Cons show ?thesis by simp
  next
    case False
    let ?r1 = "if fu \<noteq> 0 \<and> m_flags op AND fu \<noteq> 0 then setoperand_mode (\<not> u) op s else Inr s"
    from Cons.prems False obtain s1 where s1: "?r1 = Inr s1"
      by (cases ?r1) (simp_all del: propagate.simps add: propagate.simps(2))
    let ?r2 = "if fs \<noteq> 0 \<and> m_flags op AND fs \<noteq> 0 then setoperand_mode u op s1 else Inr s1"
    from Cons.prems False s1 obtain s2 where s2: "?r2 = Inr s2"
      by (cases ?r2) simp_all
    from Cons.prems False s1 s2 have "propagate u fs fu ops s2 = Inr s'" by simp
    from Cons.IH [OF this] have a: "tty_winsize s' = tty_winsize s2" .
    from s1 have b: "tty_winsize s1 = tty_winsize s"
      by (auto dest: setoperand_mode_ws split: if_splits)
    from s2 have c: "tty_winsize s2 = tty_winsize s1"
      by (auto dest: setoperand_mode_ws split: if_splits)
    from a b c show ?thesis by simp
  qed
qed

lemma parseoperand_mode_ws:
  "parseoperand_mode a s = Inr (Some s') \<Longrightarrow> tty_winsize s' = tty_winsize s"
  unfolding parseoperand_mode_def Let_def
  by (auto simp: andthen_def callfun_ws
           dest!: setoperand_mode_ws propagate_ws
           split: option.splits if_splits sum.splits)

lemma parseoperand_key_ws:
  "parseoperand_key env a a1 s = Inr (Some s') \<Longrightarrow> tty_winsize s' = tty_winsize s"
  unfolding parseoperand_key_def
  by (auto simp: andthen_def eprintf_def split: option.splits if_splits sum.splits)

lemma ints_geometry:
  assumes "find (\<lambda>op. i_op op = a) ints = Some op" and "a \<notin> {''rows'', ''cols'', ''columns''}"
  shows "i_fun op \<noteq> I_cols \<and> i_fun op \<noteq> I_rows"
proof -
  from find_Some_name [OF assms(1)] have "op \<in> set ints" and a: "i_op op = a" by simp_all
  then have "op = Intvalued ''cols'' I_cols \<or> op = Intvalued ''columns'' I_cols
      \<or> op = Intvalued ''min'' I_min \<or> op = Intvalued ''rows'' I_rows
      \<or> op = Intvalued ''time'' I_stime \<or> op = Intvalued ''ispeed'' I_ispeed
      \<or> op = Intvalued ''ospeed'' I_ospeed"
    by (simp add: ints_def)
  with a assms(2) show ?thesis by auto
qed

lemma callint_ws:
  assumes "callint f env a s = Inr s'" and "f \<noteq> I_cols" and "f \<noteq> I_rows"
  shows "tty_winsize s' = tty_winsize s"
proof (cases f)
  case I_min
  with assms(1) show ?thesis
    by (auto simp: min'_def eprintf_def split: sum.splits)
next
  case I_stime
  with assms(1) show ?thesis
    by (auto simp: stime_def eprintf_def split: sum.splits)
next
  case I_ispeed
  with assms(1) show ?thesis
    by (auto simp: ispeed_def eparsespeed_def andthen_def eprintf_def
             split: sum.splits option.splits)
next
  case I_ospeed
  with assms(1) show ?thesis
    by (auto simp: ospeed_def eparsespeed_def andthen_def eprintf_def
             split: sum.splits option.splits)
qed (use assms in simp_all)

lemma parseoperand_int_ws:
  assumes "parseoperand_int env a a1 s = Inr (Some s')"
    and "a \<notin> {''rows'', ''cols'', ''columns''}"
  shows "tty_winsize s' = tty_winsize s"
proof (cases "find (\<lambda>op. i_op op = a) ints")
  case None
  with assms(1) show ?thesis by (simp add: parseoperand_int_def)
next
  case (Some op)
  show ?thesis
  proof (cases a1)
    case None
    with Some assms(1) show ?thesis by (simp add: parseoperand_int_def eprintf_def)
  next
    case (Some v)
    with \<open>find (\<lambda>op. i_op op = a) ints = Some op\<close> assms(1)
    have "callint (i_fun op) env v s = Inr s'"
      by (cases "callint (i_fun op) env v s") (simp_all add: parseoperand_int_def)
    moreover from ints_geometry [OF \<open>find (\<lambda>op. i_op op = a) ints = Some op\<close> assms(2)]
    have "i_fun op \<noteq> I_cols" "i_fun op \<noteq> I_rows" by simp_all
    ultimately show ?thesis by (rule callint_ws)
  qed
qed

lemma line_ws:
  "line env a s = Inr s' \<Longrightarrow> tty_winsize s' = tty_winsize s"
  by (auto simp: line_def eprintf_def split: option.splits sum.splits)

lemma operand_ws:
  assumes "operand env a a1 s = Inr (two, s')" and "a \<notin> {''rows'', ''cols'', ''columns''}"
  shows "tty_winsize s' = tty_winsize s"
proof (cases "a \<noteq> [] \<and> hd a = CHR ''=''")
  case True
  with assms(1) show ?thesis
    by (auto simp: operand_def Let_def invalid_def eprintf_def split: if_splits option.splits)
next
  case False
  show ?thesis
  proof (cases "parseoperand_mode a s")
    case (Inl e)
    with assms(1) False show ?thesis by (auto simp: operand_def)
  next
    case (Inr r)
    show ?thesis
    proof (cases r)
      case (Some s1)
      with Inr assms(1) False have "s' = s1" by (auto simp: operand_def)
      with Some Inr parseoperand_mode_ws show ?thesis by blast
    next
      case None
      note m = None Inr
      show ?thesis
      proof (cases "parseoperand_key env a a1 s")
        case (Inl e)
        with assms(1) False m show ?thesis by (auto simp: operand_def)
      next
        case (Inr rk)
        show ?thesis
        proof (cases rk)
          case (Some s1)
          with Inr assms(1) False m have "s' = s1" by (auto simp: operand_def)
          with Some Inr parseoperand_key_ws show ?thesis by blast
        next
          case None
          note k = None Inr
          show ?thesis
          proof (cases "parseoperand_int env a a1 s")
            case (Inl e)
            with assms(1) False m k show ?thesis by (auto simp: operand_def)
          next
            case (Inr ri)
            show ?thesis
            proof (cases ri)
              case (Some s1)
              with Inr assms(1) False m k have "s' = s1" by (auto simp: operand_def)
              with Some Inr parseoperand_int_ws [OF _ assms(2)] show ?thesis by blast
            next
              case None
              with Inr assms(1) False m k show ?thesis
                by (auto simp: operand_def invalid_def eprintf_def andthen_def
                         dest!: line_ws split: if_splits option.splits sum.splits)
            qed
          qed
        qed
      qed
    qed
  qed
qed

lemma operands_ws:
  "operands env argv s = Inr s' \<Longrightarrow> \<forall>t\<in>set argv. t \<notin> {''rows'', ''cols'', ''columns''}
     \<Longrightarrow> tty_winsize s' = tty_winsize s"
proof (induction env argv s rule: operands.induct)
  case (1 env s)
  then show ?case by simp
next
  case (2 env arg0 argv s)
  let ?a1 = "case argv of [] \<Rightarrow> None | arg1 # _ \<Rightarrow> Some arg1"
  from "2.prems"(1) obtain two s1 where o: "operand env arg0 ?a1 s = Inr (two, s1)"
    by (cases "operand env arg0 ?a1 s") auto
  with "2.prems"(1) have r: "operands env (if two then tl argv else argv) s1 = Inr s'" by simp
  have "set (if two then tl argv else argv) \<subseteq> set argv"
    by (cases argv) auto
  with "2.prems"(2) have "\<forall>t\<in>set (if two then tl argv else argv). t \<notin> {''rows'', ''cols'', ''columns''}"
    by auto
  from "2.IH" [OF o refl r this] have "tty_winsize s' = tty_winsize s1" .
  moreover from "2.prems"(2) have "arg0 \<notin> {''rows'', ''cols'', ''columns''}" by simp
  from operand_ws [OF o this] have "tty_winsize s1 = tty_winsize s" .
  ultimately show ?case by simp
qed

lemma termios_bytes_cc_neq:
  "c_cc a i \<noteq> c_cc b i \<Longrightarrow> i < NCCS \<Longrightarrow> termios_bytes a \<noteq> termios_bytes b"
proof -
  assume ne: "c_cc a i \<noteq> c_cc b i" and i: "i < NCCS"
  have "termios_bytes m ! (17 + i) = c_cc m i" for m
    using i by (cases "c_pad m") (simp add: termios_bytes_def nth_append NCCS_def)
  with ne show ?thesis by metis
qed

lemma not_mode_rows: "\<not> is_mode ''rows''"
  by (simp add: is_mode_plain mode_names)

lemma not_key_rows: "\<not> is_key ''rows''"
  unfolding is_key_def set_map [symmetric] key_names by simp

lemma operand_rows_10:
  "operand env0 ''rows'' (Some ''10'') s
     = Inr (True, s\<lparr>tty_winsize := (tty_winsize s)\<lparr>ws_row := 10\<rparr>\<rparr>)"
  by (simp add: operand_def parseoperand_mode_no_match [OF not_mode_rows]
        parseoperand_key_no_match [OF not_key_rows] parseoperand_int_def ints_def rows_def
        setwinsize_def env0_def isdigit_def between_def USHRT_MAX_def Let_def)

lemma no_operand_class_z: "no_operand_class ''z''"
proof -
  have "\<not> is_mode ''z''"
    by (simp add: is_mode_plain mode_names)
  moreover have "\<not> is_key ''z''"
    unfolding is_key_def set_map [symmetric] key_names by simp
  moreover have "\<not> is_int ''z''"
    by (simp add: is_int_def ints_def)
  moreover have "\<not> is_speed ''z''"
    by (simp add: is_speed_def speeds_def)
  ultimately show ?thesis
    by (simp add: no_operand_class_def is_literal_def is_line_def)
qed

lemma main_rows_bogus:
  "main env0 ''stty'' [''rows'', ''10'', ''bogus''] s0
     = Inl (Exit ''invalid operand: bogus\<newline>'',
            s0\<lparr>mode := tty s0, tty_winsize := (tty_winsize s0)\<lparr>ws_row := 10\<rparr>\<rparr>)"
proof -
  have "operands env0 [''rows'', ''10'', ''bogus''] (s0\<lparr>mode := tty s0\<rparr>)
     = Inl (Exit ''invalid operand: bogus\<newline>'',
            s0\<lparr>mode := tty s0, tty_winsize := (tty_winsize s0)\<lparr>ws_row := 10\<rparr>\<rparr>)"
    by (simp add: operand_rows_10 operand_no_class [OF no_operand_class_bogus] invalid_def
          eprintf_def)
  then show ?thesis
    by (simp add: main_def env0_def)
qed

lemma main_erase_z:
  "main env0 ''stty'' [''erase'', ''z''] s0
     = Inr (s0\<lparr>mode := t0\<lparr>c_cc := (c_cc t0)(VERASE := 122)\<rparr>,
               tty := t0\<lparr>c_cc := (c_cc t0)(VERASE := 122)\<rparr>\<rparr>)"
proof -
  have k: "Key ''erase'' VERASE CERASE \<in> set keys" by (simp add: keys_def)
  from keys_not_modes k have nm: "\<not> is_mode ''erase''" and nl: "\<not> is_literal ''erase''"
    by force+
  have o: "operand env0 ''erase'' (Some ''z'') s
     = Inr (True, s\<lparr>mode := (mode s)\<lparr>c_cc := (c_cc (mode s))(VERASE := 122)\<rparr>\<rparr>)" for s
    using nl find_key [OF k]
    by (auto simp: operand_def is_literal_def parseoperand_mode_no_match [OF nm]
          parseoperand_key_def)
  have ops: "operands env0 [''erase'', ''z''] (s0\<lparr>mode := tty s0\<rparr>)
     = Inr (s0\<lparr>mode := t0\<lparr>c_cc := (c_cc t0)(VERASE := 122)\<rparr>\<rparr>)"
    by (simp add: o) (simp add: s0_def)
  have ne: "termios_bytes (t0\<lparr>c_cc := (c_cc t0)(VERASE := 122)\<rparr>) \<noteq> termios_bytes t0"
    by (rule termios_bytes_cc_neq [of _ VERASE]) (simp_all add: t0_def termbits)
  have c: "commit env0 t0 (s0\<lparr>mode := t0\<lparr>c_cc := (c_cc t0)(VERASE := 122)\<rparr>\<rparr>)
     = Inr (s0\<lparr>mode := t0\<lparr>c_cc := (c_cc t0)(VERASE := 122)\<rparr>,
               tty := t0\<lparr>c_cc := (c_cc t0)(VERASE := 122)\<rparr>\<rparr>)"
    using ne by (simp add: commit_def env0_def Let_def)
  have ts: "tty s0 = t0" by (simp add: s0_def)
  have tg: "tcgetattr_ok env0" by (simp add: env0_def)
  have rp: "report env0 False False False
              (s0\<lparr>mode := t0\<lparr>c_cc := (c_cc t0)(VERASE := 122)\<rparr>,
                  tty := t0\<lparr>c_cc := (c_cc t0)(VERASE := 122)\<rparr>\<rparr>)
     = Inr (s0\<lparr>mode := t0\<lparr>c_cc := (c_cc t0)(VERASE := 122)\<rparr>,
               tty := t0\<lparr>c_cc := (c_cc t0)(VERASE := 122)\<rparr>\<rparr>)"
    by (simp add: report_def s0_def)
  have "main env0 ''stty'' [''erase'', ''z''] s0
     = andthen (operands env0 [''erase'', ''z''] (s0\<lparr>mode := tty s0\<rparr>))
         (\<lambda>s1. andthen (commit env0 (tty s0) s1) (report env0 False False False))"
    by (simp add: main_def tg Let_def del: operands.simps)
  also have "\<dots> = andthen (commit env0 t0 (s0\<lparr>mode := t0\<lparr>c_cc := (c_cc t0)(VERASE := 122)\<rparr>\<rparr>))
         (report env0 False False False)"
    by (simp only: ts ops [unfolded ts] andthen_Inr)
  also have "\<dots> = Inr (s0\<lparr>mode := t0\<lparr>c_cc := (c_cc t0)(VERASE := 122)\<rparr>,
               tty := t0\<lparr>c_cc := (c_cc t0)(VERASE := 122)\<rparr>\<rparr>)"
    by (simp only: c andthen_Inr rp)
  finally show ?thesis .
qed

text \<open>
  C7, as amended. Let the arguments left after the options be \<open>pre\<close>, then \<open>tok\<close>,
  then \<open>rest\<close>, where the operand loop works through exactly \<open>pre\<close> without failing
  (so \<open>tok\<close> is the next token the loop tries as an operand, not the value of the
  operand before it) and \<open>tok\<close> matches no operand class. Then the run ends with a
  non-zero exit status and the terminal has the attributes it had when the run began.
  Unless the run already ended before the operand loop (both options given, or the
  attributes of standard input cannot be read), the diagnostic is the one line that names
  \<open>tok\<close>, and the run ends in the state the loop had reached after \<open>pre\<close>: no token of
  \<open>rest\<close> has been looked at, \<^verbatim>\<open>tcsetattr\<close> has not been called, and nothing has
  been written to standard output. The window size of the terminal is as it was, too,
  when none of the tokens of \<open>pre\<close> is \<open>rows\<close>, \<open>cols\<close> or \<open>columns\<close>.
\<close>

theorem invalid_operand_exits_without_commit:
  assumes "options False False args = (aflag, gflag, pre @ tok # rest)"
    and "operands env pre (s\<lparr>mode := tty s\<rparr>) = Inr s1"
    and "no_operand_class tok"
  shows "exit_status (main env argv0 args s) = 1
         \<and> tty_of (main env argv0 args s) = tty s
         \<and> (\<not> (aflag \<and> gflag) \<and> tcgetattr_ok env \<longrightarrow>
              main env argv0 args s
                = Inl (Exit (''invalid operand: '' @ tok @ ''\<newline>''), s1)
              \<and> tty s1 = tty s \<and> out s1 = out s)
         \<and> ((\<forall>t\<in>set pre. t \<notin> {''rows'', ''cols'', ''columns''}) \<longrightarrow>
              winsize_of (main env argv0 args s) = tty_winsize s)"
proof (cases "\<not> (aflag \<and> gflag) \<and> tcgetattr_ok env")
  case False
  with assms(1) show ?thesis
    by (auto simp: main_def usage_def eprintf_def exit_status_def tty_of_def winsize_of_def)
next
  case True
  have "operands env (pre @ tok # rest) (s\<lparr>mode := tty s\<rparr>) = operands env (tok # rest) s1"
    by (rule operands_append [OF assms(2)])
  also have "\<dots> = Inl (Exit (''invalid operand: '' @ tok @ ''\<newline>''), s1)"
    by (simp add: operand_no_class [OF assms(3)] invalid_def eprintf_def)
  finally have m: "main env argv0 args s
                = Inl (Exit (''invalid operand: '' @ tok @ ''\<newline>''), s1)"
    using True assms(1) by (auto simp: main_def Let_def)
  from operands_dev [OF assms(2)] have d: "tty s1 = tty s \<and> out s1 = out s" by simp
  have w: "tty_winsize s1 = tty_winsize s"
    if "\<forall>t\<in>set pre. t \<notin> {''rows'', ''cols'', ''columns''}"
    using operands_ws [OF assms(2) that] by simp
  from m d w show ?thesis by (simp add: exit_status_def tty_of_def winsize_of_def)
qed

theorem invalid_operand_exits_without_commit_witness:
  "options False False [''-echo'', ''bogus'', ''9600'']
     = (False, False, [''-echo''] @ ''bogus'' # [''9600''])
   \<and> operands env0 [''-echo''] (s0\<lparr>mode := tty s0\<rparr>)
       = Inr (s0\<lparr>mode := t0\<lparr>c_lflag := c_lflag t0 AND NOT ECHO\<rparr>\<rparr>)
   \<and> no_operand_class ''bogus''
   \<and> tcgetattr_ok env0
   \<and> set [''-echo''] \<inter> {''rows'', ''cols'', ''columns''} = {}
   \<and> main env0 ''stty'' [''-echo'', ''bogus'', ''9600''] s0
       = Inl (Exit ''invalid operand: bogus\<newline>'',
              s0\<lparr>mode := t0\<lparr>c_lflag := c_lflag t0 AND NOT ECHO\<rparr>\<rparr>)
   \<and> exit_status (main env0 ''stty'' [''-echo'', ''bogus'', ''9600''] s0) = 1
   \<and> tty_of (main env0 ''stty'' [''-echo'', ''bogus'', ''9600''] s0) = tty s0
   \<and> winsize_of (main env0 ''stty'' [''-echo'', ''bogus'', ''9600''] s0) = tty_winsize s0"
proof -
  have h1: "options False False [''-echo'', ''bogus'', ''9600'']
     = (False, False, [''-echo''] @ ''bogus'' # [''9600''])"
    by simp
  have h4: "tcgetattr_ok env0" by (simp add: env0_def)
  have h5: "\<forall>t\<in>set [''-echo'']. t \<notin> {''rows'', ''cols'', ''columns''}" by simp
  from invalid_operand_exits_without_commit [OF h1 operands_unecho no_operand_class_bogus, of "''stty''"]
    h1 h4 h5 operands_unecho no_operand_class_bogus
  show ?thesis by (simp add: exit_status_def tty_of_def winsize_of_def)
qed

text \<open>
  The claim as it is written fails. In \<open>rows 10 bogus\<close> the token \<open>bogus\<close> matches no
  operand class and the run ends with the diagnostic that names it, but the terminal is
  not as it was: it has 10 rows, where it had 24. In \<open>erase z\<close> the token \<open>z\<close>
  matches no operand class either, and the run succeeds and commits, because \<open>z\<close> is
  the value of \<open>erase\<close>. With both options, or when the attributes of standard input
  cannot be read, the one diagnostic does not name the token.
\<close>

theorem invalid_operand_counterexample:
  "no_operand_class ''bogus''
   \<and> exit_status (main env0 ''stty'' [''rows'', ''10'', ''bogus''] s0) = 1
   \<and> stderr_of (main env0 ''stty'' [''rows'', ''10'', ''bogus''] s0)
       = ''invalid operand: bogus\<newline>''
   \<and> ws_row (tty_winsize s0) = 24
   \<and> ws_row (winsize_of (main env0 ''stty'' [''rows'', ''10'', ''bogus''] s0)) = 10
   \<and> no_operand_class ''z''
   \<and> exit_status (main env0 ''stty'' [''erase'', ''z''] s0) = 0
   \<and> c_cc (tty s0) VERASE = 127
   \<and> c_cc (tty_of (main env0 ''stty'' [''erase'', ''z''] s0)) VERASE = 122
   \<and> stderr_of (main env0 ''stty'' [''-a'', ''-g'', ''bogus''] s0)
       = ''usage: stty [-a | -g] [operand ...]\<newline>''
   \<and> stderr_of (main (env0\<lparr>tcgetattr_ok := False\<rparr>) ''stty'' [''bogus''] s0)
       = ''tcgetattr <stdin>:''"
proof -
  have "stderr_of (main env0 ''stty'' [''-a'', ''-g'', ''bogus''] s0)
       = ''usage: stty [-a | -g] [operand ...]\<newline>''"
    by (simp add: main_def usage_def eprintf_def stderr_of_def)
  moreover have "stderr_of (main (env0\<lparr>tcgetattr_ok := False\<rparr>) ''stty'' [''bogus''] s0)
       = ''tcgetattr <stdin>:''"
    by (simp add: main_def eprintf_def stderr_of_def)
  moreover have "ws_row (tty_winsize s0) = 24" "c_cc (tty s0) VERASE = 127"
    by (simp_all add: s0_def t0_def termbits)
  ultimately show ?thesis
    using no_operand_class_bogus no_operand_class_z
    by (simp add: main_rows_bogus main_erase_z exit_status_def stderr_of_def winsize_of_def
          tty_of_def)
qed

text \<open>
  C2, as amended. When the options given include both \<open>-a\<close> and \<open>-g\<close>, \<^verbatim>\<open>main\<close>
  calls \<^verbatim>\<open>usage\<close>, and the run ends there with the usage line on standard error and
  exit status 1: the attributes of the terminal are not read, no operand is looked at,
  nothing is written to standard output and the terminal is left as it was.
\<close>

theorem both_options_usage_error:
  assumes "options False False args = (True, True, argv)"
  shows "main env argv0 args s
           = Inl (Exit (''usage: '' @ argv0 @ '' [-a | -g] [operand ...]\<newline>''), s)
         \<and> exit_status (main env argv0 args s) = 1
         \<and> stdout_of (main env argv0 args s) = out s
         \<and> tty_of (main env argv0 args s) = tty s"
  using assms
  by (simp add: main_def usage_def eprintf_def exit_status_def stdout_of_def tty_of_def)

theorem both_options_usage_error_witness:
  "options False False [''-g'', ''-a'', ''raw''] = (True, True, [''raw''])
   \<and> main env0 ''stty'' [''-g'', ''-a'', ''raw''] s0
       = Inl (Exit ''usage: stty [-a | -g] [operand ...]\<newline>'', s0)
   \<and> exit_status (main env0 ''stty'' [''-g'', ''-a'', ''raw''] s0) = 1
   \<and> stdout_of (main env0 ''stty'' [''-g'', ''-a'', ''raw''] s0) = []"
proof -
  have h: "options False False [''-g'', ''-a'', ''raw''] = (True, True, [''raw''])"
    by simp
  have "out s0 = []" by (simp add: s0_def)
  with both_options_usage_error [OF h, of env0 "''stty''" s0] h show ?thesis
    by (simp add: exit_status_def stdout_of_def)
qed

text \<open>
  The claim as it is written fails: with \<open>-a\<close> and \<open>-g\<close> the run ends with exit
  status 1 and the usage line, and standard output stays empty; no line \<open>=<hex>\<close> is
  printed.
\<close>

theorem both_options_counterexample:
  "exit_status (main env0 ''stty'' [''-a'', ''-g''] s0) = 1
   \<and> stderr_of (main env0 ''stty'' [''-a'', ''-g''] s0)
       = ''usage: stty [-a | -g] [operand ...]\<newline>''
   \<and> stdout_of (main env0 ''stty'' [''-a'', ''-g''] s0) = []"
  by (simp add: main_def usage_def eprintf_def exit_status_def stderr_of_def stdout_of_def
        s0_def)


end
